theory Spec2Isabelle
  imports Main
begin

section \<open>Domain values\<close>

text \<open>
  UUIDs, Go errors and SQL text are byte strings; timestamps are integers.  The
  constructors of \<open>MessageErr\<close> are the four constructors of the domain package
  that the sources call (\<open>domain.NewBadRequest\<close> and its siblings); each carries
  its message.
\<close>

type_synonym uuid = string
type_synonym timestamp = int
type_synonym go_error = string

datatype MessageErr =
    NewBadRequest string
  | NewNotFoundError string
  | NewInternalServerError string
  | NewUnauthenticatedError string

text \<open>
  \<open>domain.Cat\<close> (\<open>models.Cat\<close> in the older handler): the fields that the
  INSERT of \<open>CreateCat\<close>, the scan of \<open>GetAllCats\<close> and the response mapping
  of the match service read.
\<close>

record Cat =
  cat_ID :: uuid
  cat_CreatedAt :: timestamp
  cat_Name :: string
  cat_Race :: string
  cat_Sex :: string
  cat_AgeInMonth :: int
  cat_Description :: string
  cat_ImageUrls :: "string list"
  cat_HasMatched :: bool
  cat_OwnedById :: uuid

record CatMatch =
  cm_ID :: uuid
  cm_CreatedAt :: timestamp
  cm_Message :: string
  cm_MatchCat :: Cat
  cm_UserCat :: Cat

record CatResponse =
  cr_ID :: uuid
  cr_Name :: string
  cr_Race :: string
  cr_Sex :: string
  cr_AgeInMonth :: int
  cr_Description :: string
  cr_ImageUrls :: "string list"
  cr_HasMatched :: bool
  cr_CreatedAt :: timestamp

record CatMatchResponse =
  resp_ID :: uuid
  resp_CreatedAt :: timestamp
  resp_Message :: string
  resp_MatchCat :: CatResponse
  resp_UserCat :: CatResponse

section \<open>The store\<close>

text \<open>
  A row of table \<open>cats\<close>, with the columns the SQL of the cat repository names.
  \<open>owned_by_id\<close> is nullable: the handler's INSERT leaves it out.  A row of
  \<open>cat_matches\<close>: \<open>user_cat_id\<close> is the column \<open>CheckEditableSex\<close> reads;
  the other columns follow the data model of the specification.
\<close>

record cats_row =
  row_id :: uuid
  row_created_at :: timestamp
  row_name :: string
  row_race :: string
  row_sex :: string
  row_age_in_month :: int
  row_description :: string
  row_image_urls :: "string list"
  row_has_matched :: bool
  row_owned_by_id :: "uuid option"
  row_deleted :: bool

record cat_matches_row =
  mrow_id :: uuid
  mrow_created_at :: timestamp
  mrow_message :: string
  mrow_user_cat_id :: uuid
  mrow_match_cat_id :: uuid
  mrow_status :: string

record db =
  tbl_cats :: "cats_row list"
  tbl_cat_matches :: "cat_matches_row list"

section \<open>Transactions of database/sql\<close>

text \<open>
  The service calls \<open>db.BeginTx\<close>, \<open>tx.Commit\<close> and \<open>tx.Rollback\<close> of Go's
  \<open>database/sql\<close>.  A transaction works on a copy of the store.  Whether beginning
  and committing succeed is decided by the environment (\<open>sql_env\<close>).  As the
  library documents, the first \<open>Commit\<close> or \<open>Rollback\<close> finishes the
  transaction and every later one returns \<open>ErrTxDone\<close> and does nothing.  The
  transaction keeps the list of the calls the service made on it.
\<close>

datatype tx_state = TxOpen | TxCommitted | TxRolledBack | TxCommitFailed

datatype tx_call = CallCommit | CallRollback

record Tx =
  tx_work :: db
  tx_state :: tx_state
  tx_calls :: "tx_call list"

record sql_env =
  begin_fails :: bool
  commit_fails :: bool

definition BeginTx :: "sql_env \<Rightarrow> db \<Rightarrow> Tx option" where
  "BeginTx env d =
     (if begin_fails env then None
      else Some \<lparr>tx_work = d, tx_state = TxOpen, tx_calls = []\<rparr>)"

text \<open>\<open>Commit\<close> returns whether its error is nil, and the transaction.\<close>

definition Commit :: "sql_env \<Rightarrow> Tx \<Rightarrow> bool \<times> Tx" where
  "Commit env t =
     (let t' = t\<lparr>tx_calls := tx_calls t @ [CallCommit]\<rparr> in
      if tx_state t \<noteq> TxOpen then (False, t')
      else if commit_fails env then (False, t'\<lparr>tx_state := TxCommitFailed\<rparr>)
      else (True, t'\<lparr>tx_state := TxCommitted\<rparr>))"

definition Rollback :: "Tx \<Rightarrow> Tx" where
  "Rollback t =
     (let t' = t\<lparr>tx_calls := tx_calls t @ [CallRollback]\<rparr> in
      if tx_state t \<noteq> TxOpen then t' else t'\<lparr>tx_state := TxRolledBack\<rparr>)"

text \<open>The store that later reads see, once the transaction \<open>t\<close> begun on \<open>d\<close> has ended.\<close>

definition store_after :: "db \<Rightarrow> Tx \<Rightarrow> db" where
  "store_after d t = (if tx_state t = TxCommitted then tx_work t else d)"

section \<open>The match repository interface\<close>

text \<open>
  \<open>catMatchService\<close> holds a \<open>repository.CatMatchRepository\<close>, a Go interface:
  the five methods the service calls.  Each gets the transaction's working copy;
  the two writers return the new copy.
\<close>

record CatMatchRepository =
  repo_CreateCatMatch :: "db \<Rightarrow> CatMatch \<Rightarrow> go_error + (CatMatch \<times> db)"
  repo_GetCatMatchesByIssuerOrReceiverID :: "db \<Rightarrow> string \<Rightarrow> go_error + CatMatch list"
  repo_CanDeleteCatMatch :: "db \<Rightarrow> string \<Rightarrow> string \<Rightarrow> go_error + bool"
  repo_GetStatusCatMatchByID :: "db \<Rightarrow> string \<Rightarrow> go_error + string"
  repo_DeleteCatMatch :: "db \<Rightarrow> string \<Rightarrow> go_error + db"

section \<open>The match service (internal/service/cat-match.go)\<close>

text \<open>
  Every service function returns its Go result, the store as later reads see it, and
  the transaction it used (\<open>None\<close> when none was begun).  \<open>defer tx.Rollback()\<close>
  is the \<open>Rollback\<close> applied last on every path after a successful begin.
\<close>

definition CreateCatMatch ::
  "CatMatchRepository \<Rightarrow> sql_env \<Rightarrow> db \<Rightarrow> CatMatch
     \<Rightarrow> (MessageErr + string) \<times> db \<times> Tx option" where
  "CreateCatMatch c env d catMatchPayload =
     (case BeginTx env d of
        None \<Rightarrow> (Inl (NewBadRequest ''Failed to start transaction''), d, None)
      | Some tx \<Rightarrow>
          (case repo_CreateCatMatch c (tx_work tx) catMatchPayload of
             Inl err \<Rightarrow>
               (let tx' = Rollback tx in
                (Inl (NewBadRequest ''Failed to create cat match''), store_after d tx', Some tx'))
           | Inr (created, w) \<Rightarrow>
               (case Commit env (tx\<lparr>tx_work := w\<rparr>) of
                  (False, tx1) \<Rightarrow>
                    (let tx' = Rollback tx1 in
                     (Inl (NewBadRequest ''Failed to commit transaction''),
                      store_after d tx', Some tx'))
                | (True, tx1) \<Rightarrow>
                    (let tx' = Rollback tx1 in
                     (Inr ''successfully send match request'', store_after d tx', Some tx')))))"

definition toCatResponse :: "Cat \<Rightarrow> CatResponse" where
  "toCatResponse k =
     \<lparr>cr_ID = cat_ID k, cr_Name = cat_Name k, cr_Race = cat_Race k, cr_Sex = cat_Sex k,
      cr_AgeInMonth = cat_AgeInMonth k, cr_Description = cat_Description k,
      cr_ImageUrls = cat_ImageUrls k, cr_HasMatched = cat_HasMatched k,
      cr_CreatedAt = cat_CreatedAt k\<rparr>"

definition toCatMatchResponse :: "CatMatch \<Rightarrow> CatMatchResponse" where
  "toCatMatchResponse catMatch =
     \<lparr>resp_ID = cm_ID catMatch, resp_CreatedAt = cm_CreatedAt catMatch,
      resp_Message = cm_Message catMatch,
      resp_MatchCat = toCatResponse (cm_MatchCat catMatch),
      resp_UserCat = toCatResponse (cm_UserCat catMatch)\<rparr>"

text \<open>The \<open>for ... range catMatches\<close> loop, appending one response per row.\<close>

fun appendResponses :: "CatMatchResponse list \<Rightarrow> CatMatch list \<Rightarrow> CatMatchResponse list" where
  "appendResponses catMatchResponses [] = catMatchResponses"
| "appendResponses catMatchResponses (catMatch # rest) =
     appendResponses (catMatchResponses @ [toCatMatchResponse catMatch]) rest"

definition GetCatMatchesByIssuerOrReceiverID ::
  "CatMatchRepository \<Rightarrow> sql_env \<Rightarrow> db \<Rightarrow> string
     \<Rightarrow> (MessageErr + CatMatchResponse list) \<times> db \<times> Tx option" where
  "GetCatMatchesByIssuerOrReceiverID c env d ident =
     (case BeginTx env d of
        None \<Rightarrow> (Inl (NewBadRequest ''Failed to start transaction''), d, None)
      | Some tx \<Rightarrow>
          (case repo_GetCatMatchesByIssuerOrReceiverID c (tx_work tx) ident of
             Inl err \<Rightarrow>
               (let tx' = Rollback tx in
                (Inl (NewBadRequest ''Failed to get cat match''), store_after d tx', Some tx'))
           | Inr catMatches \<Rightarrow>
               (let tx1 = snd (Commit env tx);
                    catMatchResponses = appendResponses [] catMatches;
                    tx' = Rollback tx1
                in (Inr catMatchResponses, store_after d tx', Some tx'))))"

text \<open>
  \<open>UpdateCatMatchByID\<close> is \<open>return nil, nil\<close>: no response, no error, and nothing
  touched.
\<close>

definition UpdateCatMatchByID ::
  "CatMatchRepository \<Rightarrow> sql_env \<Rightarrow> db \<Rightarrow> string \<Rightarrow> CatMatch
     \<Rightarrow> (CatMatchResponse option \<times> MessageErr option) \<times> db \<times> Tx option" where
  "UpdateCatMatchByID c env d ident catMatchPayload = ((None, None), d, None)"

definition placeholderUserId :: string where
  "placeholderUserId = ''e91ce26e-9a53-4c4f-b5b5-0cad1a61d82b''"

definition DeleteCatMatch ::
  "CatMatchRepository \<Rightarrow> sql_env \<Rightarrow> db \<Rightarrow> string \<Rightarrow> MessageErr option \<times> db \<times> Tx option" where
  "DeleteCatMatch c env d ident =
     (case BeginTx env d of
        None \<Rightarrow> (Some (NewInternalServerError ''Failed to start transaction''), d, None)
      | Some tx \<Rightarrow>
          (let userId = placeholderUserId in
           case repo_CanDeleteCatMatch c (tx_work tx) ident userId of
             Inl err \<Rightarrow>
               (let tx' = Rollback tx in
                (Some (NewInternalServerError ''something went wrong''), store_after d tx', Some tx'))
           | Inr canDelete \<Rightarrow>
               if \<not> canDelete then
                 (let tx' = Rollback tx in
                  (Some (NewNotFoundError ''Cat match request is not found''),
                   store_after d tx', Some tx'))
               else
                 (case repo_GetStatusCatMatchByID c (tx_work tx) ident of
                    Inl err \<Rightarrow>
                      (let tx' = Rollback tx in
                       (Some (NewInternalServerError ''something went wrong''),
                        store_after d tx', Some tx'))
                  | Inr status \<Rightarrow>
                      if status \<noteq> ''waiting'' then
                        (let tx' = Rollback tx in
                         (Some (NewBadRequest ''Cannot delete non waiting cat match request''),
                          store_after d tx', Some tx'))
                      else
                        (case repo_DeleteCatMatch c (tx_work tx) ident of
                           Inl err \<Rightarrow>
                             (let tx' = Rollback tx in
                              (Some (NewBadRequest ''Failed to create cat match''),
                               store_after d tx', Some tx'))
                         | Inr w \<Rightarrow>
                             (case Commit env (tx\<lparr>tx_work := w\<rparr>) of
                                (False, tx1) \<Rightarrow>
                                  (let tx' = Rollback tx1 in
                                   (Some (NewInternalServerError ''Failed to commit transaction''),
                                    store_after d tx', Some tx'))
                              | (True, tx1) \<Rightarrow>
                                  (let tx' = Rollback tx1 in
                                   (None, store_after d tx', Some tx')))))))"

section \<open>Predicates of the cat repository (CatRepository)\<close>

text \<open>
  The three join queries share their FROM and WHERE clauses: the pairs of rows
  \<open>c1\<close>, \<open>c2\<close> of \<open>cats\<close> with \<open>c2.id != c1.id\<close>, \<open>c1.id = $1\<close> and
  \<open>c2.id = $2\<close>.  \<open>QueryRowContext(...).Scan\<close> reads the first row and returns
  \<open>sql.ErrNoRows\<close> when there is none.  None of the three looks at \<open>deleted\<close>.
\<close>

definition joinPairs :: "db \<Rightarrow> uuid \<Rightarrow> uuid \<Rightarrow> (cats_row \<times> cats_row) list" where
  "joinPairs d cat1Id cat2Id =
     [(c1, c2). c1 \<leftarrow> tbl_cats d, c2 \<leftarrow> tbl_cats d,
        row_id c2 \<noteq> row_id c1, row_id c1 = cat1Id, row_id c2 = cat2Id]"

definition ErrNoRows :: go_error where
  "ErrNoRows = ''sql: no rows in result set''"

definition CheckCatHasSameSex :: "db \<Rightarrow> uuid \<Rightarrow> uuid \<Rightarrow> go_error + bool" where
  "CheckCatHasSameSex d cat1Id cat2Id =
     (case joinPairs d cat1Id cat2Id of
        [] \<Rightarrow> Inl ErrNoRows
      | (c1, c2) # _ \<Rightarrow> Inr (row_sex c1 = row_sex c2))"





section \<open>The match repository, from the specification\<close>

text \<open>
  The implementation of \<open>repository.CatMatchRepository\<close> is not among the sources.
  The definitions of this section follow section 4.1 of the specification, over the
  table \<open>cat_matches\<close>.  The zero \<open>uuid.UUID\<close> stands in the one field of
  \<open>domain.Cat\<close> that is not a public field.
\<close>

definition uuid_Nil :: uuid where
  "uuid_Nil = ''00000000-0000-0000-0000-000000000000''"

definition scanCat :: "cats_row \<Rightarrow> Cat" where
  "scanCat r =
     \<lparr>cat_ID = row_id r, cat_CreatedAt = row_created_at r, cat_Name = row_name r,
      cat_Race = row_race r, cat_Sex = row_sex r, cat_AgeInMonth = row_age_in_month r,
      cat_Description = row_description r, cat_ImageUrls = row_image_urls r,
      cat_HasMatched = row_has_matched r, cat_OwnedById = uuid_Nil\<rparr>"

definition findCat :: "db \<Rightarrow> uuid \<Rightarrow> cats_row option" where
  "findCat d catId = find (\<lambda>r. row_id r = catId) (tbl_cats d)"

text \<open>
  Modelled from the spec: the row that \<open>CreateMatch(tx, match)\<close> inserts; the
  repository's INSERT is missing from the sources.  "Insert the match row with status
  \<open>waiting\<close>" (4.2, step 5); the issuer's cat is the payload's \<open>userCatId\<close>, the
  receiver's its \<open>matchCatId\<close> (section 6).
\<close>

definition insertedRow :: "CatMatch \<Rightarrow> cat_matches_row" where
  "insertedRow m =
     \<lparr>mrow_id = cm_ID m, mrow_created_at = cm_CreatedAt m, mrow_message = cm_Message m,
      mrow_user_cat_id = cat_ID (cm_UserCat m), mrow_match_cat_id = cat_ID (cm_MatchCat m),
      mrow_status = ''waiting''\<rparr>"

text \<open>
  Modelled from the spec: \<open>CreateMatch(tx, match)\<close>, missing from the sources,
  "inserts a new match row; fails with \<open>PersistenceError\<close> on constraint violation
  or connectivity failure".  Which insertions the schema's constraints refuse
  (\<open>rejects\<close>) and whether the connection is down (\<open>down\<close>) are parameters.
\<close>

definition spec_CreateCatMatch ::
  "(db \<Rightarrow> CatMatch \<Rightarrow> bool) \<Rightarrow> bool \<Rightarrow> db \<Rightarrow> CatMatch \<Rightarrow> go_error + (CatMatch \<times> db)" where
  "spec_CreateCatMatch rejects down d m =
     (if down \<or> rejects d m then Inl ''PersistenceError''
      else Inr (m, d\<lparr>tbl_cat_matches := tbl_cat_matches d @ [insertedRow m]\<rparr>))"

text \<open>
  Modelled from the spec: the join of \<open>GetMatchesForParticipant\<close>, missing from the
  sources: a match "joined with both referenced cats' public fields".  Every selected
  match yields one joined row ("returns all matches").  The data model has every match
  reference two cats of the store; for a reference without a row the cat is left at
  Go's zero value.
\<close>

definition zeroCat :: Cat where
  "zeroCat =
     \<lparr>cat_ID = uuid_Nil, cat_CreatedAt = 0, cat_Name = [], cat_Race = [], cat_Sex = [],
      cat_AgeInMonth = 0, cat_Description = [], cat_ImageUrls = [], cat_HasMatched = False,
      cat_OwnedById = uuid_Nil\<rparr>"

definition joinedCat :: "db \<Rightarrow> uuid \<Rightarrow> Cat" where
  "joinedCat d catId = (case findCat d catId of None \<Rightarrow> zeroCat | Some r \<Rightarrow> scanCat r)"

definition joinMatch :: "db \<Rightarrow> cat_matches_row \<Rightarrow> CatMatch" where
  "joinMatch d m =
     \<lparr>cm_ID = mrow_id m, cm_CreatedAt = mrow_created_at m, cm_Message = mrow_message m,
      cm_MatchCat = joinedCat d (mrow_match_cat_id m),
      cm_UserCat = joinedCat d (mrow_user_cat_id m)\<rparr>"

text \<open>
  Modelled from the spec: the owner of a cat, for the two users of a match (the
  glossary: the issuer is "the user who created a match request on behalf of their
  cat", the receiver "the owner of the other cat"); no query for it is among the
  sources.
\<close>

definition ownerOf :: "db \<Rightarrow> uuid \<Rightarrow> uuid option" where
  "ownerOf d catId = (case findCat d catId of None \<Rightarrow> None | Some r \<Rightarrow> row_owned_by_id r)"

text \<open>
  Modelled from the spec: which matches \<open>GetMatchesForParticipant(tx, catOrUserID)\<close>
  (missing from the sources) selects: those "where the given identity is either issuer
  or receiver".  The identity is a cat's or a user's: it is the issuer's or the
  receiver's cat of the row (\<open>issuer_cat_id\<close> / \<open>receiver_cat_id\<close> in the data
  model), or the user who owns one of the two.
\<close>

definition participates :: "db \<Rightarrow> string \<Rightarrow> cat_matches_row \<Rightarrow> bool" where
  "participates d ident m =
     (mrow_user_cat_id m = ident \<or> mrow_match_cat_id m = ident \<or>
      ownerOf d (mrow_user_cat_id m) = Some ident \<or>
      ownerOf d (mrow_match_cat_id m) = Some ident)"

text \<open>
  Modelled from the spec: \<open>GetMatchesForParticipant(tx, catOrUserID)\<close>, missing from
  the sources, "returns all matches where the given identity is either issuer or
  receiver, joined with both referenced cats' public fields; returns empty sequence if
  none found (not an error)".
\<close>

definition spec_GetCatMatchesByIssuerOrReceiverID ::
  "bool \<Rightarrow> db \<Rightarrow> string \<Rightarrow> go_error + CatMatch list" where
  "spec_GetCatMatchesByIssuerOrReceiverID down d ident =
     (if down then Inl ''PersistenceError''
      else Inr (map (joinMatch d) (filter (participates d ident) (tbl_cat_matches d))))"

text \<open>
  Modelled from the spec: \<open>CanUserDeleteMatch(tx, matchID, userID)\<close>, missing from the
  sources, "returns whether the requesting user is the issuer (or otherwise authorized
  party) of the given match; false if match not found".  The issuer is "the user who
  created a match request on behalf of their cat": the owner of the issuer's cat.
\<close>

definition spec_CanDeleteCatMatch :: "bool \<Rightarrow> db \<Rightarrow> string \<Rightarrow> string \<Rightarrow> go_error + bool" where
  "spec_CanDeleteCatMatch down d matchId userId =
     (if down then Inl ''PersistenceError''
      else Inr (list_ex
        (\<lambda>m. mrow_id m = matchId \<and>
              (case findCat d (mrow_user_cat_id m) of
                 None \<Rightarrow> False
               | Some u \<Rightarrow> row_owned_by_id u = Some userId))
        (tbl_cat_matches d)))"

text \<open>
  Modelled from the spec: \<open>GetMatchStatus(tx, matchID)\<close>, missing from the sources,
  "returns current status string; fails with \<open>NotFound\<close> if the match ID does not
  exist".
\<close>

definition spec_GetStatusCatMatchByID :: "bool \<Rightarrow> db \<Rightarrow> string \<Rightarrow> go_error + string" where
  "spec_GetStatusCatMatchByID down d matchId =
     (if down then Inl ''PersistenceError''
      else case find (\<lambda>m. mrow_id m = matchId) (tbl_cat_matches d) of
             None \<Rightarrow> Inl ''NotFound''
           | Some m \<Rightarrow> Inr (mrow_status m))"

text \<open>
  Modelled from the spec: \<open>DeleteMatch(tx, matchID)\<close>, missing from the sources,
  "removes (or soft-deletes) the match row"; here it removes it.
\<close>

definition spec_DeleteCatMatch :: "bool \<Rightarrow> db \<Rightarrow> string \<Rightarrow> go_error + db" where
  "spec_DeleteCatMatch down d matchId =
     (if down then Inl ''PersistenceError''
      else Inr (d\<lparr>tbl_cat_matches := filter (\<lambda>m. mrow_id m \<noteq> matchId) (tbl_cat_matches d)\<rparr>))"

text \<open>
  Modelled from the spec: the repository as a whole (no implementation of the
  interface is among the sources), the five operations above.
\<close>

definition specCatMatchRepository ::
  "(db \<Rightarrow> CatMatch \<Rightarrow> bool) \<Rightarrow> bool \<Rightarrow> CatMatchRepository" where
  "specCatMatchRepository rejects down =
     \<lparr>repo_CreateCatMatch = spec_CreateCatMatch rejects down,
      repo_GetCatMatchesByIssuerOrReceiverID = spec_GetCatMatchesByIssuerOrReceiverID down,
      repo_CanDeleteCatMatch = spec_CanDeleteCatMatch down,
      repo_GetStatusCatMatchByID = spec_GetStatusCatMatchByID down,
      repo_DeleteCatMatch = spec_DeleteCatMatch down\<rparr>"

section \<open>Small stores for the concrete instances\<close>

definition envOk :: sql_env where
  "envOk = \<lparr>begin_fails = False, commit_fails = False\<rparr>"

definition noConstraint :: "db \<Rightarrow> CatMatch \<Rightarrow> bool" where
  "noConstraint d m = False"

definition mkRow :: "uuid \<Rightarrow> string \<Rightarrow> uuid \<Rightarrow> cats_row" where
  "mkRow catId sex ownerId =
     \<lparr>row_id = catId, row_created_at = 1, row_name = ''Tom'', row_race = ''Persian'',
      row_sex = sex, row_age_in_month = 12, row_description = ''a cat'',
      row_image_urls = [''http://img/1''], row_has_matched = False,
      row_owned_by_id = Some ownerId, row_deleted = False\<rparr>"

definition mkPayload :: "uuid \<Rightarrow> uuid \<Rightarrow> uuid \<Rightarrow> CatMatch" where
  "mkPayload matchId userCatId matchCatId =
     \<lparr>cm_ID = matchId, cm_CreatedAt = 5, cm_Message = ''hello'',
      cm_MatchCat = scanCat (mkRow matchCatId [] []),
      cm_UserCat = scanCat (mkRow userCatId [] [])\<rparr>"

definition sameSexDb :: db where
  "sameSexDb =
     \<lparr>tbl_cats = [mkRow ''cat-a'' ''male'' ''user-1'', mkRow ''cat-b'' ''male'' ''user-2''],
      tbl_cat_matches = []\<rparr>"

definition validDb :: db where
  "validDb =
     \<lparr>tbl_cats = [mkRow ''cat-a'' ''male'' ''user-1'', mkRow ''cat-b'' ''female'' ''user-2''],
      tbl_cat_matches = []\<rparr>"

definition waitingDb :: db where
  "waitingDb = validDb\<lparr>tbl_cat_matches := [insertedRow (mkPayload ''m-1'' ''cat-a'' ''cat-b'')]\<rparr>"

definition placeholderDb :: db where
  "placeholderDb =
     \<lparr>tbl_cats = [mkRow ''cat-a'' ''male'' placeholderUserId, mkRow ''cat-b'' ''female'' ''user-2''],
      tbl_cat_matches = [insertedRow (mkPayload ''m-1'' ''cat-a'' ''cat-b'')]\<rparr>"

section \<open>Adding a cat (HandleAddNewCat)\<close>

text \<open>
  Modelled from the spec: \<open>models.CatRace\<close>, whose declaration is missing from the
  sources: the "enum of 10 fixed breeds", which the handler's own error message lists.
\<close>

definition CatRace :: "string list" where
  "CatRace = [''Persian'', ''Maine Coon'', ''Siamese'', ''Ragdoll'', ''Bengal'', ''Sphynx'',
              ''British Shorthair'', ''Abyssinian'', ''Scottish Fold'', ''Birman'']"

text \<open>
  Modelled from the spec: \<open>models.CatSex\<close>, whose declaration is missing from the
  sources: "sex (enum: male/female)", as the handler's error message says.
\<close>

definition CatSex :: "string list" where
  "CatSex = [''male'', ''female'']"

datatype gin_H = ErrorBody string | SuccessBody uuid timestamp

record http_response =
  http_status :: nat
  http_body :: gin_H

definition badRequest :: "string \<Rightarrow> http_response" where
  "badRequest msg = \<lparr>http_status = 400, http_body = ErrorBody msg\<rparr>"

text \<open>
  The loop over \<open>catBody.ImageUrls\<close>: the message of the first failing item.
  \<open>url.ParseRequestURI\<close> belongs to Go's library; \<open>ParseRequestURI u\<close> says that
  it returns no error on \<open>u\<close>.
\<close>

fun checkImageUrls :: "(string \<Rightarrow> bool) \<Rightarrow> string list \<Rightarrow> string option" where
  "checkImageUrls ParseRequestURI [] = None"
| "checkImageUrls ParseRequestURI (imageUrl # rest) =
     (if length imageUrl < 1 then Some ''image urls cannot have empty item''
      else if \<not> ParseRequestURI imageUrl then Some ''image url should have valid url''
      else checkImageUrls ParseRequestURI rest)"

text \<open>
  The row of the handler's INSERT: eight columns are given; the other three take the
  column defaults (not matched, no owner, not deleted).
\<close>

definition handlerRow :: "Cat \<Rightarrow> cats_row" where
  "handlerRow catBody =
     \<lparr>row_id = cat_ID catBody, row_created_at = cat_CreatedAt catBody,
      row_name = cat_Name catBody, row_race = cat_Race catBody, row_sex = cat_Sex catBody,
      row_age_in_month = cat_AgeInMonth catBody, row_description = cat_Description catBody,
      row_image_urls = cat_ImageUrls catBody, row_has_matched = False,
      row_owned_by_id = None, row_deleted = False\<rparr>"

text \<open>
  The handler.  \<open>bound\<close> is what \<open>c.ShouldBindJSON(&catBody)\<close> leaves: its error,
  or the bound body.  \<open>exec_err\<close> is the error of \<open>db.Exec\<close>, if any.
\<close>

definition HandleAddNewCat ::
  "(string \<Rightarrow> bool) \<Rightarrow> go_error option \<Rightarrow> db \<Rightarrow> go_error + Cat \<Rightarrow> http_response \<times> db" where
  "HandleAddNewCat ParseRequestURI exec_err d bound =
     (case bound of
        Inl err \<Rightarrow> (badRequest err, d)
      | Inr catBody \<Rightarrow>
          if length (cat_Name catBody) < 1 \<or> length (cat_Name catBody) > 30 then
            (badRequest ''name length should be between 1 and 30 characters'', d)
          else if (cat_Race catBody \<in> set CatRace) \<noteq> True then
            (badRequest ''accepted race is only Persian, Maine Coon, Siamese, Ragdoll, Bengal, Sphynx, British Shorthair, Abyssinian, Scottish Fold, Birman'', d)
          else if (cat_Sex catBody \<in> set CatSex) \<noteq> True then
            (badRequest ''accepted sex is only male and female'', d)
          else if cat_AgeInMonth catBody < 1 \<or> cat_AgeInMonth catBody > 120082 then
            (badRequest ''your cat's age is minimum 1 month and maximum 120082 month'', d)
          else if length (cat_Description catBody) < 1 \<or> length (cat_Description catBody) > 200 then
            (badRequest ''description length should be between 1 and 200 characters'', d)
          else if length (cat_ImageUrls catBody) < 1 then
            (badRequest ''image urls at least have 1 image'', d)
          else
            (case checkImageUrls ParseRequestURI (cat_ImageUrls catBody) of
               Some msg \<Rightarrow> (badRequest msg, d)
             | None \<Rightarrow>
                 (case exec_err of
                    Some err \<Rightarrow> (\<lparr>http_status = 500, http_body = ErrorBody err\<rparr>, d)
                  | None \<Rightarrow>
                      (\<lparr>http_status = 201,
                        http_body = SuccessBody (cat_ID catBody) (cat_CreatedAt catBody)\<rparr>,
                       d\<lparr>tbl_cats := tbl_cats d @ [handlerRow catBody]\<rparr>))))"

text \<open>
  What the handler tests, field by field: the lengths are Go's \<open>len\<close>, the number
  of bytes of the string.
\<close>

definition handlerChecks :: "(string \<Rightarrow> bool) \<Rightarrow> Cat \<Rightarrow> bool" where
  "handlerChecks ParseRequestURI k =
     (1 \<le> length (cat_Name k) \<and> length (cat_Name k) \<le> 30 \<and>
      cat_Race k \<in> set CatRace \<and>
      cat_Sex k \<in> set CatSex \<and>
      1 \<le> cat_AgeInMonth k \<and> cat_AgeInMonth k \<le> 120082 \<and>
      1 \<le> length (cat_Description k) \<and> length (cat_Description k) \<le> 200 \<and>
      cat_ImageUrls k \<noteq> [] \<and>
      list_all (\<lambda>u. u \<noteq> [] \<and> ParseRequestURI u) (cat_ImageUrls k))"

text \<open>
  The characters of a UTF-8 string are its bytes that do not continue a character
  (the bytes \<open>10xxxxxx\<close>); JSON decoding yields well-formed UTF-8.
\<close>

definition isContinuation :: "char \<Rightarrow> bool" where
  "isContinuation ch = (128 \<le> (of_char ch :: nat) \<and> (of_char ch :: nat) < 192)"

definition charCount :: "string \<Rightarrow> nat" where
  "charCount s = length (filter (\<lambda>ch. \<not> isContinuation ch) s)"

text \<open>
  The field constraints as the data model and the handler's own messages state them,
  for comparison with the handler: a name of 1 to 30 characters, one of the breeds,
  one of the sexes, 1 to 120082 months, a description of 1 to 200 characters, at least
  one image URL, each non-empty and accepted by \<open>url.ParseRequestURI\<close>.
\<close>

definition catConstraints :: "(string \<Rightarrow> bool) \<Rightarrow> Cat \<Rightarrow> bool" where
  "catConstraints ParseRequestURI k =
     (1 \<le> charCount (cat_Name k) \<and> charCount (cat_Name k) \<le> 30 \<and>
      cat_Race k \<in> set CatRace \<and>
      cat_Sex k \<in> set CatSex \<and>
      1 \<le> cat_AgeInMonth k \<and> cat_AgeInMonth k \<le> 120082 \<and>
      1 \<le> charCount (cat_Description k) \<and> charCount (cat_Description k) \<le> 200 \<and>
      cat_ImageUrls k \<noteq> [] \<and>
      list_all (\<lambda>u. u \<noteq> [] \<and> ParseRequestURI u) (cat_ImageUrls k))"

section \<open>The filter builder of the cat listing (validateGetAllCatsQueryParams)\<close>

text \<open>\<open>%d\<close> of \<open>fmt.Sprintf\<close> on a natural number.\<close>

definition digit :: "nat \<Rightarrow> char" where
  "digit n = ''0123456789'' ! n"

fun show_nat :: "nat \<Rightarrow> string" where
  "show_nat n = (if n < 10 then [digit n] else show_nat (n div 10) @ [digit (n mod 10)])"

declare show_nat.simps [simp del]

text \<open>\<open>"$%d"\<close> with \<open>len(args)+1\<close>.\<close>

definition placeholder :: "string list \<Rightarrow> string" where
  "placeholder args = ''$'' @ show_nat (length args + 1)"

text \<open>
  The regular expression \<open>([>=<])(\d+)\<close> with \<open>FindStringSubmatch\<close>: the leftmost
  operator character that a digit follows, with the longest run of digits after it.
  \<open>Some (opr, val)\<close> stands for the three matches, \<open>None\<close> for no match.
\<close>

definition isDigit :: "char \<Rightarrow> bool" where
  "isDigit ch = (ch \<in> set ''0123456789'')"

fun FindStringSubmatch :: "string \<Rightarrow> (char \<times> string) option" where
  "FindStringSubmatch [] = None"
| "FindStringSubmatch (ch # rest) =
     (if ch \<in> set ''>=<'' \<and> takeWhile isDigit rest \<noteq> []
      then Some (ch, takeWhile isDigit rest)
      else FindStringSubmatch rest)"

record qparams =
  whereClause :: "string list"
  limitOffsetClause :: "string list"
  args :: "string list"

text \<open>
  One turn of the loop \<open>for key, value := range queryParams\<close>.  \<open>url.Values\<close> is
  a Go map; the model gets its entries as the list of pairs in the order the loop
  visits them.  \<open>value[0]\<close> on an empty slice panics (\<open>None\<close>).  The list
  \<open>domain.CatQueryParams\<close> is not among the sources and is a parameter, as is
  \<open>uuid.Parse\<close> of the uuid library (\<open>uuid_Parse v\<close>: no error on \<open>v\<close>).
\<close>

definition processParam ::
  "string list \<Rightarrow> (string \<Rightarrow> bool) \<Rightarrow> string \<Rightarrow> qparams \<Rightarrow> string \<times> string list
     \<Rightarrow> qparams option" where
  "processParam CatQueryParams uuid_Parse userId st kv =
     (case snd kv of
        [] \<Rightarrow> None
      | v0 # others \<Rightarrow>
          (let key = fst kv;
               undefinedParam = ((key \<in> set CatQueryParams) \<noteq> True);
               limitOffset = (key = ''limit'' \<or> key = ''offset'');
               emptyValue = (length v0 < 1)
           in
           if limitOffset then
             (let v1 = (if key = ''limit'' \<and> emptyValue then ''5'' else v0);
                  v2 = (if key = ''offset'' \<and> emptyValue then ''0'' else v1)
              in Some (st\<lparr>limitOffsetClause :=
                             limitOffsetClause st @ [key @ '' '' @ placeholder (args st)],
                           args := args st @ [v2]\<rparr>))
           else if undefinedParam \<or> limitOffset \<or> emptyValue then Some st
           else if key = ''id'' \<and> \<not> uuid_Parse v0 then Some st
           else
             (let key1 = (if key = ''hasMatched'' then ''has_matched'' else key) in
              if key1 = ''ageInMonth'' then
                (case FindStringSubmatch v0 of
                   None \<Rightarrow> Some st
                 | Some (opr, val) \<Rightarrow>
                     Some (st\<lparr>whereClause :=
                                 whereClause st @
                                   [''age_in_month'' @ '' '' @ [opr] @ '' '' @ placeholder (args st)],
                               args := args st @ [val]\<rparr>))
              else if key1 = ''owned'' \<and> v0 \<noteq> ''true'' \<and> v0 \<noteq> ''false'' then Some st
              else if key1 = ''owned'' \<and> v0 = ''false'' then
                Some (st\<lparr>whereClause :=
                            whereClause st @ [''owned_by_id'' @ '' != '' @ placeholder (args st)],
                          args := args st @ [userId]\<rparr>)
              else
                (let key2 = (if key1 = ''owned'' then ''owned_by_id'' else key1);
                     v1 = (if key1 = ''owned'' then userId else v0);
                     key3 = (if key2 = ''search'' then ''name'' else key2)
                 in Some (st\<lparr>whereClause :=
                                whereClause st @ [key3 @ '' = '' @ placeholder (args st)],
                              args := args st @ [v1]\<rparr>)))))"

fun processParams ::
  "string list \<Rightarrow> (string \<Rightarrow> bool) \<Rightarrow> string \<Rightarrow> qparams \<Rightarrow> (string \<times> string list) list
     \<Rightarrow> qparams option" where
  "processParams CatQueryParams uuid_Parse userId st [] = Some st"
| "processParams CatQueryParams uuid_Parse userId st (kv # rest) =
     (case processParam CatQueryParams uuid_Parse userId st kv of
        None \<Rightarrow> None
      | Some st' \<Rightarrow> processParams CatQueryParams uuid_Parse userId st' rest)"

definition validateGetAllCatsQueryParams ::
  "string list \<Rightarrow> (string \<Rightarrow> bool) \<Rightarrow> (string \<times> string list) list \<Rightarrow> string
     \<Rightarrow> (string list \<times> string list \<times> string list) option" where
  "validateGetAllCatsQueryParams CatQueryParams uuid_Parse queryParams userId =
     (case processParams CatQueryParams uuid_Parse userId
             \<lparr>whereClause = [], limitOffsetClause = [], args = []\<rparr> queryParams of
        None \<Rightarrow> None
      | Some st \<Rightarrow> Some (whereClause st, limitOffsetClause st, args st))"

text \<open>
  Modelled from the spec: a value for \<open>domain.CatQueryParams\<close>, whose declaration is
  missing from the sources, for the concrete instances: the keys the loop treats by
  name, and the plain columns \<open>race\<close> and \<open>sex\<close>.
\<close>

definition exampleCatQueryParams :: "string list" where
  "exampleCatQueryParams =
     [''id'', ''limit'', ''offset'', ''race'', ''sex'', ''hasMatched'', ''ageInMonth'',
      ''owned'', ''search'']"

section \<open>The SQL text of GetAllCats\<close>

fun strings_Join :: "string list \<Rightarrow> string \<Rightarrow> string" where
  "strings_Join [] sep = []"
| "strings_Join [x] sep = x"
| "strings_Join (x # y # ys) sep = x @ sep @ strings_Join (y # ys) sep"

definition nl :: string where
  "nl = [CHR 0x0A]"

definition tab :: string where
  "tab = [CHR 0x09]"

definition baseQuery :: string where
  "baseQuery =
     nl @ tab @ tab @ ''SELECT id, name, race, sex,'' @
     nl @ tab @ tab @ tab @ ''age_in_month, image_urls, description,'' @
     nl @ tab @ tab @ tab @ ''created_at, has_matched'' @
     nl @ tab @ tab @ ''FROM cats'' @
     nl @ tab @ tab @ ''WHERE deleted = false'' @
     nl @ tab @ tab"

definition getAllCatsQuery :: "string list \<Rightarrow> string list \<Rightarrow> string" where
  "getAllCatsQuery wc loc =
     (let query = baseQuery;
          query1 = (if length wc > 0 then query @ ''AND '' @ strings_Join wc '' AND '' else query);
          query2 = query1 @ nl @ ''ORDER BY created_at DESC''
      in query2 @ nl @ strings_Join loc '' '')"

section \<open>The cat repository: CreateCat, GetAllCats, UpdateCat, DeleteCat\<close>

record User =
  user_Id :: uuid
  user_Email :: string
  user_Name :: string
  user_Password :: string
  user_JWTSecret :: string

text \<open>
  The row of \<open>CreateCat\<close>'s INSERT: nine columns are given; \<open>has_matched\<close> and
  \<open>deleted\<close> take the column defaults (false).
\<close>

definition createdRow :: "Cat \<Rightarrow> cats_row" where
  "createdRow catBody =
     \<lparr>row_id = cat_ID catBody, row_created_at = cat_CreatedAt catBody,
      row_name = cat_Name catBody, row_race = cat_Race catBody, row_sex = cat_Sex catBody,
      row_age_in_month = cat_AgeInMonth catBody, row_description = cat_Description catBody,
      row_image_urls = cat_ImageUrls catBody, row_has_matched = False,
      row_owned_by_id = Some (cat_OwnedById catBody), row_deleted = False\<rparr>"

text \<open>
  The three writers return the error of \<open>db.Exec\<close> (\<open>exec_err\<close>, given by the
  environment) and the store.
\<close>

definition CreateCat :: "go_error option \<Rightarrow> db \<Rightarrow> Cat \<Rightarrow> go_error option \<times> db" where
  "CreateCat exec_err d catBody =
     (case exec_err of
        Some err \<Rightarrow> (Some err, d)
      | None \<Rightarrow> (None, d\<lparr>tbl_cats := tbl_cats d @ [createdRow catBody]\<rparr>))"

definition updateRow :: "Cat \<Rightarrow> cats_row \<Rightarrow> cats_row" where
  "updateRow k r =
     (if row_id r = cat_ID k
      then r\<lparr>row_name := cat_Name k, row_race := cat_Race k, row_sex := cat_Sex k,
             row_age_in_month := cat_AgeInMonth k, row_description := cat_Description k,
             row_image_urls := cat_ImageUrls k\<rparr>
      else r)"

definition UpdateCat :: "go_error option \<Rightarrow> db \<Rightarrow> Cat \<Rightarrow> go_error option \<times> db" where
  "UpdateCat exec_err d k =
     (case exec_err of
        Some err \<Rightarrow> (Some err, d)
      | None \<Rightarrow> (None, d\<lparr>tbl_cats := map (updateRow k) (tbl_cats d)\<rparr>))"

definition markDeleted :: "uuid \<Rightarrow> cats_row \<Rightarrow> cats_row" where
  "markDeleted catId r = (if row_id r = catId then r\<lparr>row_deleted := True\<rparr> else r)"

definition DeleteCat :: "go_error option \<Rightarrow> db \<Rightarrow> uuid \<Rightarrow> go_error option \<times> db" where
  "DeleteCat exec_err d catId =
     (case exec_err of
        Some err \<Rightarrow> (Some err, d)
      | None \<Rightarrow> (None, d\<lparr>tbl_cats := map (markDeleted catId) (tbl_cats d)\<rparr>))"

text \<open>
  \<open>db.Query\<close> on a SELECT over \<open>cats\<close>: the part of the database's reading of
  the statement that decides which rows can be returned.  The text is split into
  words at blanks.  After \<open>FROM cats\<close>, a \<open>WHERE\<close> is followed by conditions of
  three words each (column, operator, value), joined by \<open>AND\<close> or \<open>OR\<close>, where
  \<open>AND\<close> binds tighter; the conditions end at the first other word.  A row is read
  when all conditions of one of the \<open>OR\<close>-alternatives hold for it.
\<close>

definition isBlank :: "char \<Rightarrow> bool" where
  "isBlank ch = (ch = CHR '' '' \<or> ch = CHR 0x0A \<or> ch = CHR 0x09)"

function sqlWords :: "string \<Rightarrow> string list" where
  "sqlWords [] = []"
| "sqlWords (ch # rest) =
     (if isBlank ch then sqlWords rest
      else (ch # takeWhile (\<lambda>x. \<not> isBlank x) rest) # sqlWords (dropWhile (\<lambda>x. \<not> isBlank x) rest))"
  by pat_completeness auto
termination
  by (relation "measure length") (auto simp: less_Suc_eq_le length_dropWhile_le)

fun afterFrom :: "string list \<Rightarrow> string list option" where
  "afterFrom [] = None"
| "afterFrom (t # ts) = (if t = ''FROM'' then Some ts else afterFrom ts)"

type_synonym sql_atom = "string \<times> string \<times> string"

fun parseConds :: "string list \<Rightarrow> (sql_atom list list \<times> string list) option" where
  "parseConds (c # opr # v # rest) =
     (case rest of
        [] \<Rightarrow> Some ([[(c, opr, v)]], [])
      | t # others \<Rightarrow>
          if t = ''AND'' then
            (case parseConds others of
               None \<Rightarrow> None
             | Some ([], r) \<Rightarrow> None
             | Some (cj # alts, r) \<Rightarrow> Some (((c, opr, v) # cj) # alts, r))
          else if t = ''OR'' then
            (case parseConds others of
               None \<Rightarrow> None
             | Some (alts, r) \<Rightarrow> Some ([(c, opr, v)] # alts, r))
          else Some ([[(c, opr, v)]], t # others))"
| "parseConds ts = None"

text \<open>
  A condition on \<open>deleted\<close> against the literals \<open>false\<close> and \<open>true\<close> is read
  on the row.  What a comparison of another column with a bound argument amounts to
  (types, casts) is left to the database: the parameter \<open>sem\<close>.
\<close>

type_synonym sql_sem = "string \<Rightarrow> string \<Rightarrow> string \<Rightarrow> string list \<Rightarrow> cats_row \<Rightarrow> bool"

definition atomHolds :: "sql_sem \<Rightarrow> string list \<Rightarrow> cats_row \<Rightarrow> sql_atom \<Rightarrow> bool" where
  "atomHolds sem qargs r a =
     (case a of (c, opr, v) \<Rightarrow>
        if c = ''deleted'' \<and> opr = ''='' \<and> v = ''false'' then row_deleted r = False
        else if c = ''deleted'' \<and> opr = ''='' \<and> v = ''true'' then row_deleted r = True
        else sem c opr v qargs r)"

text \<open>
  What follows the conditions (ORDER BY, LIMIT, OFFSET) is applied by the parameter
  \<open>window\<close> to the rows read; it returns an error or the rows of the result.
\<close>

type_synonym sql_window = "string list \<Rightarrow> string list \<Rightarrow> cats_row list \<Rightarrow> go_error + cats_row list"

definition queryCats ::
  "sql_sem \<Rightarrow> sql_window \<Rightarrow> string \<Rightarrow> string list \<Rightarrow> db \<Rightarrow> go_error + cats_row list" where
  "queryCats sem window query qargs d =
     (case afterFrom (sqlWords query) of
        None \<Rightarrow> Inl ''syntax error''
      | Some [] \<Rightarrow> Inl ''syntax error''
      | Some (tbl # ts) \<Rightarrow>
          if tbl \<noteq> ''cats'' then Inl ''relation does not exist''
          else
            (case ts of
               [] \<Rightarrow> window [] qargs (tbl_cats d)
             | t # cs \<Rightarrow>
                 if t = ''WHERE'' then
                   (case parseConds cs of
                      None \<Rightarrow> Inl ''syntax error''
                    | Some (alts, rest) \<Rightarrow>
                        window rest qargs
                          (filter (\<lambda>r. list_ex (list_all (atomHolds sem qargs r)) alts) (tbl_cats d)))
                 else window (t # cs) qargs (tbl_cats d)))"

text \<open>ORDER BY, LIMIT and OFFSET only choose among the rows read.\<close>

definition selective :: "sql_window \<Rightarrow> bool" where
  "selective window = (\<forall>ts a rows out. window ts a rows = Inr out \<longrightarrow> set out \<subseteq> set rows)"

text \<open>
  A key of the allow-list that is one word (not empty, no blank) is one word of the
  SQL text.
\<close>

definition wordLike :: "string \<Rightarrow> bool" where
  "wordLike w = (w \<noteq> [] \<and> \<not> list_ex isBlank w)"

text \<open>The loop \<open>for rows.Next()\<close>: one \<open>domain.Cat\<close> per row, in order.\<close>

fun scanRows :: "Cat list \<Rightarrow> cats_row list \<Rightarrow> Cat list" where
  "scanRows cats [] = cats"
| "scanRows cats (r # rest) = scanRows (cats @ [scanCat r]) rest"

text \<open>\<open>None\<close>: the filter builder panicked.\<close>

definition GetAllCats ::
  "string list \<Rightarrow> (string \<Rightarrow> bool) \<Rightarrow> sql_sem \<Rightarrow> sql_window \<Rightarrow> db \<Rightarrow> User
     \<Rightarrow> (string \<times> string list) list \<Rightarrow> (go_error + Cat list) option" where
  "GetAllCats CatQueryParams uuid_Parse sem window d user queryParams =
     (case validateGetAllCatsQueryParams CatQueryParams uuid_Parse queryParams (user_Id user) of
        None \<Rightarrow> None
      | Some (wc, loc, qargs) \<Rightarrow>
          Some (case queryCats sem window (getAllCatsQuery wc loc) qargs d of
                  Inl err \<Rightarrow> Inl err
                | Inr rows \<Rightarrow> Inr (scanRows [] rows)))"

text \<open>Later writes of the cat repository, each with the error of its \<open>db.Exec\<close>.\<close>

datatype cat_op =
    OpCreateCat "go_error option" Cat
  | OpUpdateCat "go_error option" Cat
  | OpDeleteCat "go_error option" uuid

fun applyOp :: "db \<Rightarrow> cat_op \<Rightarrow> db" where
  "applyOp d (OpCreateCat e k) = snd (CreateCat e d k)"
| "applyOp d (OpUpdateCat e k) = snd (UpdateCat e d k)"
| "applyOp d (OpDeleteCat e catId) = snd (DeleteCat e d catId)"

fun createsId :: "uuid \<Rightarrow> cat_op \<Rightarrow> bool" where
  "createsId catId (OpCreateCat e k) = (cat_ID k = catId)"
| "createsId catId (OpUpdateCat e k) = False"
| "createsId catId (OpDeleteCat e x) = False"

section \<open>Bearer tokens (internal/models/user.go)\<close>

text \<open>
  The Authorization header is the sequence of its runes, as Go's UTF-8 decoder reads
  the string.  \<open>unicode.IsSpace\<close> is what \<open>strings.Fields\<close> splits around.
\<close>

type_synonym rune = nat

definition runes :: "string \<Rightarrow> rune list" where
  "runes s = map of_char s"

definition isSpace :: "rune \<Rightarrow> bool" where
  "isSpace r =
     (r = 9 \<or> r = 10 \<or> r = 11 \<or> r = 12 \<or> r = 13 \<or> r = 32 \<or> r = 133 \<or> r = 160 \<or>
      r = 5760 \<or> (8192 \<le> r \<and> r \<le> 8202) \<or> r = 8232 \<or> r = 8233 \<or> r = 8239 \<or>
      r = 8287 \<or> r = 12288)"

function Fields :: "rune list \<Rightarrow> rune list list" where
  "Fields [] = []"
| "Fields (r # rs) =
     (if isSpace r then Fields rs
      else (r # takeWhile (\<lambda>x. \<not> isSpace x) rs) # Fields (dropWhile (\<lambda>x. \<not> isSpace x) rs))"
  by pat_completeness auto
termination
  by (relation "measure length") (auto simp: less_Suc_eq_le length_dropWhile_le)

definition HasPrefix :: "rune list \<Rightarrow> rune list \<Rightarrow> bool" where
  "HasPrefix s pre = (take (length pre) s = pre)"

text \<open>
  The dynamic type of a claim's value (an \<open>interface{}\<close>).  JSON decoding yields
  strings, numbers, booleans, nil, arrays and objects; a \<open>uuid.UUID\<close> is in a claims
  map only when Go code put it there, as \<open>GenerateToken\<close> does before signing.
\<close>

datatype claim_value =
    StringClaim string
  | UUIDClaim uuid
  | NumberClaim int
  | BoolClaim bool
  | NilClaim
  | OtherClaim

datatype token_claims = MapClaims "string \<Rightarrow> claim_value option" | OtherClaims

datatype signing_method = SigningMethodHMAC | OtherSigningMethod

record Token =
  tok_Method :: signing_method
  tok_Claims :: token_claims
  tok_Valid :: bool

definition invalidTokenErr :: MessageErr where
  "invalidTokenErr = NewUnauthenticatedError ''invalid token''"

text \<open>The key function \<open>parseToken\<close> hands to \<open>jwt.Parse\<close>.\<close>

definition keyFunc :: "User \<Rightarrow> Token \<Rightarrow> MessageErr + string" where
  "keyFunc u t =
     (if tok_Method t \<noteq> SigningMethodHMAC then Inl invalidTokenErr
      else Inr (user_JWTSecret u))"

text \<open>
  \<open>jwt.Parse\<close> belongs to the jwt library: a parameter, from the token string and
  the key function to an error or a token.
\<close>

type_synonym jwt_parser = "rune list \<Rightarrow> (Token \<Rightarrow> MessageErr + string) \<Rightarrow> go_error + Token"

definition parseToken :: "jwt_parser \<Rightarrow> User \<Rightarrow> rune list \<Rightarrow> MessageErr + Token" where
  "parseToken jwt_Parse u tokenString =
     (case jwt_Parse tokenString (keyFunc u) of
        Inl err \<Rightarrow> Inl invalidTokenErr
      | Inr token \<Rightarrow> Inr token)"

definition bindTokenToUserEntity ::
  "User \<Rightarrow> (string \<Rightarrow> claim_value option) \<Rightarrow> MessageErr option \<times> User" where
  "bindTokenToUserEntity u claim =
     (case claim ''id'' of
        Some (UUIDClaim uid) \<Rightarrow>
          (let u1 = u\<lparr>user_Id := uid\<rparr> in
           case claim ''name'' of
             Some (StringClaim name) \<Rightarrow> (None, u1\<lparr>user_Name := name\<rparr>)
           | _ \<Rightarrow> (Some invalidTokenErr, u1))
      | _ \<Rightarrow> (Some invalidTokenErr, u))"

definition ValidateToken :: "jwt_parser \<Rightarrow> User \<Rightarrow> rune list \<Rightarrow> MessageErr option \<times> User" where
  "ValidateToken jwt_Parse u bearerToken =
     (let isBearer = HasPrefix bearerToken (runes ''Bearer'') in
      if \<not> isBearer then (Some (NewUnauthenticatedError ''token should be Bearer''), u)
      else
        (let splitToken = Fields bearerToken in
         if length splitToken \<noteq> 2 then (Some (NewUnauthenticatedError ''invalid token''), u)
         else
           (let tokenString = splitToken ! 1 in
            case parseToken jwt_Parse u tokenString of
              Inl err \<Rightarrow> (Some err, u)
            | Inr token \<Rightarrow>
                (case tok_Claims token of
                   MapClaims mapClaims \<Rightarrow>
                     if \<not> tok_Valid token then (Some invalidTokenErr, u)
                     else bindTokenToUserEntity u mapClaims
                 | OtherClaims \<Rightarrow> (Some invalidTokenErr, u)))))"

section \<open>The listing, as the specification words it\<close>

text \<open>
  For comparison with the service: the nine public fields of a cat, read from its row
  (id, name, race, sex, age, description, image URLs, matched flag, created-at), and
  an entry of the listing that embeds the match row and the public fields of both
  cats it references (those of the zero cat for a reference without a row).
\<close>

definition publicFields :: "cats_row \<Rightarrow> CatResponse" where
  "publicFields r =
     \<lparr>cr_ID = row_id r, cr_Name = row_name r, cr_Race = row_race r, cr_Sex = row_sex r,
      cr_AgeInMonth = row_age_in_month r, cr_Description = row_description r,
      cr_ImageUrls = row_image_urls r, cr_HasMatched = row_has_matched r,
      cr_CreatedAt = row_created_at r\<rparr>"

definition publicFieldsOf :: "db \<Rightarrow> uuid \<Rightarrow> CatResponse" where
  "publicFieldsOf d catId =
     (case findCat d catId of None \<Rightarrow> toCatResponse zeroCat | Some r \<Rightarrow> publicFields r)"

definition embedsMatch :: "db \<Rightarrow> CatMatchResponse \<Rightarrow> cat_matches_row \<Rightarrow> bool" where
  "embedsMatch d r m =
     (resp_ID r = mrow_id m \<and> resp_CreatedAt r = mrow_created_at m \<and>
      resp_Message r = mrow_message m \<and>
      resp_UserCat r = publicFieldsOf d (mrow_user_cat_id m) \<and>
      resp_MatchCat r = publicFieldsOf d (mrow_match_cat_id m))"

section \<open>Values for the concrete instances of the token check\<close>

definition exampleUser :: User where
  "exampleUser = \<lparr>user_Id = ''u-0'', user_Email = [], user_Name = [], user_Password = [],
                   user_JWTSecret = ''secret''\<rparr>"

definition exampleParser :: "claim_value \<Rightarrow> jwt_parser" where
  "exampleParser idClaim tokenString kf =
     Inr \<lparr>tok_Method = SigningMethodHMAC,
          tok_Claims = MapClaims [''id'' \<mapsto> idClaim, ''name'' \<mapsto> StringClaim ''bob''],
          tok_Valid = True\<rparr>"

section \<open>Values for the concrete instances of the handler\<close>

definition exampleParseRequestURI :: "string \<Rightarrow> bool" where
  "exampleParseRequestURI u = (take 7 u = ''http://'')"

definition exampleCat :: "string \<Rightarrow> Cat" where
  "exampleCat race =
     \<lparr>cat_ID = ''cat-n'', cat_CreatedAt = 7, cat_Name = ''Tom'', cat_Race = race,
      cat_Sex = ''male'', cat_AgeInMonth = 12, cat_Description = ''a cat'',
      cat_ImageUrls = [''http://img/1''], cat_HasMatched = False, cat_OwnedById = uuid_Nil\<rparr>"

text \<open>
  A name of sixteen characters that takes thirty-two bytes in UTF-8: sixteen times
  U+00E9 (bytes C3 A9).
\<close>

definition accentedName :: string where
  "accentedName = concat (replicate 16 [CHR 0xC3, CHR 0xA9])"

definition accentedCat :: Cat where
  "accentedCat = (exampleCat ''Persian'')\<lparr>cat_Name := accentedName\<rparr>"

section \<open>Soft deletion, as the claim words it\<close>

text \<open>
  \<open>flaggedDeleted catId r r1\<close>: row \<open>r1\<close> is row \<open>r\<close> with \<open>deleted\<close> set if
  its id is \<open>catId\<close>.  \<open>allDeleted catId d\<close>: every row with id \<open>catId\<close> is
  soft-deleted.  \<open>hasRow catId d\<close>: the table has a row with that id.
\<close>

definition flaggedDeleted :: "uuid \<Rightarrow> cats_row \<Rightarrow> cats_row \<Rightarrow> bool" where
  "flaggedDeleted catId r r1 = (r1 = r\<lparr>row_deleted := (row_deleted r \<or> row_id r = catId)\<rparr>)"

definition allDeleted :: "uuid \<Rightarrow> db \<Rightarrow> bool" where
  "allDeleted catId d = list_all (\<lambda>r. row_id r \<noteq> catId \<or> row_deleted r) (tbl_cats d)"

definition hasRow :: "uuid \<Rightarrow> db \<Rightarrow> bool" where
  "hasRow catId d = list_ex (\<lambda>r. row_id r = catId) (tbl_cats d)"

text \<open>
  For the concrete instances: a database that compares \<open>sex\<close> with the first
  bound argument and lets every other comparison pass, and that returns the rows read
  as they are.
\<close>

definition exampleSem :: sql_sem where
  "exampleSem c opr v qargs r =
     (if c = ''sex'' \<and> opr = ''='' \<and> v = ''$1'' \<and> qargs \<noteq> [] then row_sex r = hd qargs else True)"

definition exampleWindow :: sql_window where
  "exampleWindow ts qargs rows = Inr rows"

section \<open>The templates of the filter builder, as the claim words them\<close>

text \<open>
  The effect of one query parameter on the SQL text, as a template: nothing, a
  LIMIT/OFFSET fragment, or a WHERE fragment of a column and an operator.  The
  template depends on the key and on the class of the first value only
  (\<open>classOf\<close>); the value itself goes to the bound arguments (\<open>boundArg\<close>).
  \<open>sameShape\<close>: the same keys in the same order, with values of the same classes.
  \<open>wellFormed\<close> and \<open>sameSql\<close> are the invariants of the loop.
\<close>

datatype template = NoClause | LimitOffset string | Where string string

type_synonym value_class = "bool \<times> bool \<times> char option \<times> bool \<times> bool"

definition classOf :: "(string \<Rightarrow> bool) \<Rightarrow> string \<Rightarrow> string \<Rightarrow> value_class" where
  "classOf uuid_Parse key v0 =
     (key \<noteq> ''limit'' \<and> key \<noteq> ''offset'' \<and> v0 = [],
      key = ''id'' \<and> uuid_Parse v0,
      (if key = ''ageInMonth'' then map_option fst (FindStringSubmatch v0) else None),
      key = ''owned'' \<and> v0 = ''true'',
      key = ''owned'' \<and> v0 = ''false'')"

definition valueClass :: "(string \<Rightarrow> bool) \<Rightarrow> string \<times> string list \<Rightarrow> value_class option" where
  "valueClass uuid_Parse kv =
     (case snd kv of [] \<Rightarrow> None | v0 # others \<Rightarrow> Some (classOf uuid_Parse (fst kv) v0))"

definition sameShape ::
  "(string \<Rightarrow> bool) \<Rightarrow> (string \<times> string list) list \<Rightarrow> (string \<times> string list) list \<Rightarrow> bool" where
  "sameShape uuid_Parse ps qs =
     (map fst ps = map fst qs \<and> map (valueClass uuid_Parse) ps = map (valueClass uuid_Parse) qs)"

definition template_of :: "string list \<Rightarrow> string \<Rightarrow> value_class \<Rightarrow> template" where
  "template_of CatQueryParams key cls =
     (case cls of (emptyValue, uuidOk, opr, isTrue, isFalse) \<Rightarrow>
        if key = ''limit'' \<or> key = ''offset'' then LimitOffset key
        else if key \<notin> set CatQueryParams \<or> emptyValue then NoClause
        else if key = ''id'' \<and> \<not> uuidOk then NoClause
        else if key = ''hasMatched'' then Where ''has_matched'' ''=''
        else if key = ''ageInMonth'' then
          (case opr of None \<Rightarrow> NoClause | Some c \<Rightarrow> Where ''age_in_month'' [c])
        else if key = ''owned'' then
          (if isFalse then Where ''owned_by_id'' ''!=''
           else if isTrue then Where ''owned_by_id'' ''=''
           else NoClause)
        else if key = ''search'' then Where ''name'' ''=''
        else Where key ''='')"

definition boundArg :: "string \<Rightarrow> string \<Rightarrow> string \<Rightarrow> string" where
  "boundArg key v0 userId =
     (if key = ''limit'' then (if v0 = [] then ''5'' else v0)
      else if key = ''offset'' then (if v0 = [] then ''0'' else v0)
      else if key = ''ageInMonth'' then
        (case FindStringSubmatch v0 of None \<Rightarrow> [] | Some (c, val) \<Rightarrow> val)
      else if key = ''owned'' then userId
      else v0)"

definition applyTemplate :: "template \<Rightarrow> string \<Rightarrow> qparams \<Rightarrow> qparams" where
  "applyTemplate t arg st =
     (case t of
        NoClause \<Rightarrow> st
      | LimitOffset kw \<Rightarrow>
          st\<lparr>limitOffsetClause := limitOffsetClause st @ [kw @ '' '' @ placeholder (args st)],
             args := args st @ [arg]\<rparr>
      | Where col opr \<Rightarrow>
          st\<lparr>whereClause := whereClause st @ [col @ '' '' @ opr @ '' '' @ placeholder (args st)],
             args := args st @ [arg]\<rparr>)"

definition operators :: "string list" where
  "operators = [''='', ''>'', ''<'', ''!='']"

definition columns :: "string list \<Rightarrow> string list" where
  "columns CatQueryParams =
     [''has_matched'', ''age_in_month'', ''owned_by_id'', ''name''] @ CatQueryParams"

definition isWhereFragment :: "string list \<Rightarrow> nat \<Rightarrow> string \<Rightarrow> bool" where
  "isWhereFragment CatQueryParams n f =
     list_ex (\<lambda>col. list_ex (\<lambda>opr. list_ex (\<lambda>i. f = col @ '' '' @ opr @ '' $'' @ show_nat i)
        [1..<Suc n]) operators) (columns CatQueryParams)"

definition isLimitOffsetFragment :: "nat \<Rightarrow> string \<Rightarrow> bool" where
  "isLimitOffsetFragment n f =
     list_ex (\<lambda>kw. list_ex (\<lambda>i. f = kw @ '' $'' @ show_nat i) [1..<Suc n]) [''limit'', ''offset'']"

definition wellFormed :: "string list \<Rightarrow> qparams \<Rightarrow> bool" where
  "wellFormed P st =
     (list_all (isWhereFragment P (length (args st))) (whereClause st) \<and>
      list_all (isLimitOffsetFragment (length (args st))) (limitOffsetClause st) \<and>
      length (whereClause st) + length (limitOffsetClause st) = length (args st))"

definition sameSql :: "qparams \<Rightarrow> qparams \<Rightarrow> bool" where
  "sameSql s s' =
     (whereClause s = whereClause s' \<and> limitOffsetClause s = limitOffsetClause s' \<and>
      length (args s) = length (args s'))"

section \<open>Properties of the match service\<close>

lemmas tx_defs = BeginTx_def Commit_def Rollback_def store_after_def

lemmas spec_repo_defs = specCatMatchRepository_def spec_CreateCatMatch_def
  spec_GetCatMatchesByIssuerOrReceiverID_def spec_CanDeleteCatMatch_def
  spec_GetStatusCatMatchByID_def spec_DeleteCatMatch_def noConstraint_def

text \<open>
  Claim C6.  For every match id and payload, \<open>UpdateCatMatchByID\<close> changes no state:
  the store is the one it was given and no transaction is opened; it returns neither
  a response nor an error.
\<close>

theorem UpdateCatMatchByID_does_nothing:
  "UpdateCatMatchByID c env d ident catMatchPayload = ((None, None), d, None)"
  by (simp add: UpdateCatMatchByID_def)

text \<open>
  Claim C4, as the code has it.  The listing never changes the store.  When the
  transaction cannot be begun there is no transaction to end.  Otherwise the deferred
  \<open>Rollback\<close> is always the last call on the transaction: when the repository's read
  fails it is the only call and it rolls the transaction back; when the read succeeds
  the service calls \<open>Commit\<close> first, so the transaction ends committed (or with a
  failed commit, whose error is ignored) and the deferred \<open>Rollback\<close> finds it
  finished.  This holds for every repository.
\<close>

theorem GetCatMatches_commit_then_rollback:
  "GetCatMatchesByIssuerOrReceiverID c env d ident = (res, d', txo) \<Longrightarrow>
   d' = d \<and>
   (if begin_fails env then txo = None
    else \<exists>t. txo = Some t \<and> tx_work t = d \<and>
       (case repo_GetCatMatchesByIssuerOrReceiverID c d ident of
          Inl err \<Rightarrow> tx_calls t = [CallRollback] \<and> tx_state t = TxRolledBack
        | Inr ms \<Rightarrow> tx_calls t = [CallCommit, CallRollback] \<and>
                   tx_state t = (if commit_fails env then TxCommitFailed else TxCommitted)))"
  by (auto simp: GetCatMatchesByIssuerOrReceiverID_def tx_defs Let_def split: sum.splits if_splits)

text \<open>An instance: the repository's read fails, and the transaction is rolled back.\<close>

theorem GetCatMatches_commit_then_rollback_witness:
  "fst (snd (GetCatMatchesByIssuerOrReceiverID
      (specCatMatchRepository noConstraint True) envOk waitingDb ''cat-b'')) = waitingDb \<and>
   map_option tx_calls (snd (snd (GetCatMatchesByIssuerOrReceiverID
      (specCatMatchRepository noConstraint True) envOk waitingDb ''cat-b'')))
     = Some [CallRollback]"
proof -
  let ?R = "GetCatMatchesByIssuerOrReceiverID
      (specCatMatchRepository noConstraint True) envOk waitingDb ''cat-b''"
  have "?R = (fst ?R, fst (snd ?R), snd (snd ?R))" by simp
  from GetCatMatches_commit_then_rollback [OF this]
  show ?thesis by (auto simp: spec_repo_defs envOk_def)
qed

text \<open>
  Against C4 as stated ("always rolls back and never commits"): on a store with two
  cats and a working database the listing calls \<open>Commit\<close> and the transaction ends
  committed.
\<close>

theorem GetCatMatches_never_commits_counterexample:
  "map_option tx_calls (snd (snd (GetCatMatchesByIssuerOrReceiverID
      (specCatMatchRepository noConstraint False) envOk validDb ''cat-a'')))
     = Some [CallCommit, CallRollback] \<and>
   map_option tx_state (snd (snd (GetCatMatchesByIssuerOrReceiverID
      (specCatMatchRepository noConstraint False) envOk validDb ''cat-a'')))
     = Some TxCommitted"
  by (simp add: GetCatMatchesByIssuerOrReceiverID_def tx_defs spec_repo_defs envOk_def Let_def)

text \<open>
  Claim C1, as the code has it.  \<open>CreateCatMatch\<close> evaluates none of the predicates
  (existence, sex, owner, matched); it begins a transaction, calls the repository's
  insert and commits.  For every repository: the call fails exactly when the
  transaction cannot be begun, the repository's insert fails, or the commit fails;
  every failure is a \<open>BadRequest\<close> and leaves the store as it was; and on success
  the store is the one the repository's insert wrote.
\<close>

theorem CreateCatMatch_fails_only_on_infrastructure:
  "CreateCatMatch c env d p = (res, d', txo) \<Longrightarrow>
     (isl res \<longleftrightarrow> (begin_fails env \<or> isl (repo_CreateCatMatch c d p) \<or> commit_fails env)) \<and>
     (isl res \<longrightarrow> d' = d \<and> (\<exists>msg. res = Inl (NewBadRequest msg))) \<and>
     (\<not> isl res \<longrightarrow> (\<exists>created w. repo_CreateCatMatch c d p = Inr (created, w) \<and> d' = w))"
  by (auto simp: CreateCatMatch_def tx_defs Let_def split: sum.splits if_splits prod.splits)

text \<open>An instance: the commit fails, the call fails and the store is unchanged.\<close>

theorem CreateCatMatch_fails_only_on_infrastructure_witness:
  "isl (fst (CreateCatMatch (specCatMatchRepository noConstraint False)
          \<lparr>begin_fails = False, commit_fails = True\<rparr> sameSexDb
          (mkPayload ''m-1'' ''cat-a'' ''cat-b''))) \<and>
   fst (snd (CreateCatMatch (specCatMatchRepository noConstraint False)
          \<lparr>begin_fails = False, commit_fails = True\<rparr> sameSexDb
          (mkPayload ''m-1'' ''cat-a'' ''cat-b''))) = sameSexDb"
proof -
  let ?R = "CreateCatMatch (specCatMatchRepository noConstraint False)
          \<lparr>begin_fails = False, commit_fails = True\<rparr> sameSexDb
          (mkPayload ''m-1'' ''cat-a'' ''cat-b'')"
  have "?R = (fst ?R, fst (snd ?R), snd (snd ?R))" by simp
  from CreateCatMatch_fails_only_on_infrastructure [OF this]
  show ?thesis by simp
qed

text \<open>
  Against C1 as stated: two male cats of different owners.  \<open>CheckCatHasSameSex\<close>
  reports the same sex, and yet \<open>CreateCatMatch\<close> succeeds on a repository that
  inserts, and the match row is in the store afterwards.
\<close>

theorem CreateCatMatch_same_sex_counterexample:
  "CheckCatHasSameSex sameSexDb ''cat-a'' ''cat-b'' = Inr True \<and>
   fst (CreateCatMatch (specCatMatchRepository noConstraint False) envOk sameSexDb
          (mkPayload ''m-1'' ''cat-a'' ''cat-b'')) = Inr ''successfully send match request'' \<and>
   tbl_cat_matches (fst (snd (CreateCatMatch (specCatMatchRepository noConstraint False) envOk
          sameSexDb (mkPayload ''m-1'' ''cat-a'' ''cat-b''))))
     = [insertedRow (mkPayload ''m-1'' ''cat-a'' ''cat-b'')]"
  by (simp add: CheckCatHasSameSex_def joinPairs_def sameSexDb_def mkRow_def
      CreateCatMatch_def tx_defs spec_repo_defs envOk_def Let_def)

subsection \<open>The service on the repository of the specification\<close>

lemma appendResponses_map:
  "appendResponses acc ms = acc @ map toCatMatchResponse ms"
  by (induction ms arbitrary: acc) simp_all

lemma toCatResponse_scanCat: "toCatResponse (scanCat r) = publicFields r"
  by (simp add: toCatResponse_def scanCat_def publicFields_def)

lemma toCatResponse_joinedCat: "toCatResponse (joinedCat d catId) = publicFieldsOf d catId"
  by (simp add: joinedCat_def publicFieldsOf_def toCatResponse_scanCat split: option.splits)

lemma joinMatch_embeds: "embedsMatch d (toCatMatchResponse (joinMatch d m)) m"
  by (simp add: joinMatch_def embedsMatch_def toCatMatchResponse_def toCatResponse_joinedCat)

lemma joined_all2:
  "list_all2 (embedsMatch d) (map toCatMatchResponse (map (joinMatch d) ms)) ms"
  by (induction ms) (simp_all add: joinMatch_embeds)

lemma listing_spec:
  assumes "\<not> begin_fails env"
  shows "fst (GetCatMatchesByIssuerOrReceiverID (specCatMatchRepository rejects False) env d ident)
     = Inr (map toCatMatchResponse
             (map (joinMatch d) (filter (participates d ident) (tbl_cat_matches d))))"
  using assms
  by (simp add: GetCatMatchesByIssuerOrReceiverID_def tx_defs Let_def specCatMatchRepository_def
        spec_GetCatMatchesByIssuerOrReceiverID_def appendResponses_map)






text \<open>
  Claim C5.  On the repository of the specification, when the transaction begins: for
  every participant (a cat, or the user who owns the issuer's or the receiver's cat)
  the listing returns, without error, exactly one entry per match in which the
  participant is issuer or receiver, in order (the empty sequence when there is none),
  and each entry embeds its match and the public fields of both referenced cats.
\<close>

theorem GetCatMatches_one_entry_per_match:
  assumes "\<not> begin_fails env"
  shows "\<exists>rs. fst (GetCatMatchesByIssuerOrReceiverID (specCatMatchRepository rejects False) env d ident)
                 = Inr rs \<and>
              length rs = length (filter (participates d ident) (tbl_cat_matches d)) \<and>
              list_all2 (embedsMatch d) rs (filter (participates d ident) (tbl_cat_matches d))"
proof -
  let ?ms = "filter (participates d ident) (tbl_cat_matches d)"
  let ?rs = "map toCatMatchResponse (map (joinMatch d) ?ms)"
  have "list_all2 (embedsMatch d) ?rs ?ms" by (rule joined_all2)
  moreover from this have "length ?rs = length ?ms"
    by (rule list_all2_lengthD)
  ultimately show ?thesis
    using listing_spec [OF assms] by blast
qed

text \<open>
  An instance: a store with one match; its issuer \<open>user-1\<close> and the receiver's cat
  \<open>cat-b\<close> get one entry each, a stranger gets the empty sequence.
\<close>

theorem GetCatMatches_one_entry_per_match_witness:
  "(\<exists>rs. fst (GetCatMatchesByIssuerOrReceiverID (specCatMatchRepository noConstraint False)
              envOk waitingDb ''user-1'') = Inr rs \<and> length rs = 1) \<and>
   (\<exists>rs. fst (GetCatMatchesByIssuerOrReceiverID (specCatMatchRepository noConstraint False)
              envOk waitingDb ''cat-b'') = Inr rs \<and> length rs = 1) \<and>
   (\<exists>rs. fst (GetCatMatchesByIssuerOrReceiverID (specCatMatchRepository noConstraint False)
              envOk waitingDb ''user-9'') = Inr rs \<and> length rs = 0)"
proof -
  have e: "\<not> begin_fails envOk" by (simp add: envOk_def)
  have 1: "length (filter (participates waitingDb ''user-1'') (tbl_cat_matches waitingDb)) = 1"
    and 2: "length (filter (participates waitingDb ''cat-b'') (tbl_cat_matches waitingDb)) = 1"
    and 0: "length (filter (participates waitingDb ''user-9'') (tbl_cat_matches waitingDb)) = 0"
    by (simp_all add: waitingDb_def validDb_def participates_def ownerOf_def findCat_def
        insertedRow_def mkPayload_def scanCat_def mkRow_def)
  from GetCatMatches_one_entry_per_match [OF e, of noConstraint waitingDb "''user-1''"]
       GetCatMatches_one_entry_per_match [OF e, of noConstraint waitingDb "''cat-b''"]
       GetCatMatches_one_entry_per_match [OF e, of noConstraint waitingDb "''user-9''"]
  show ?thesis unfolding 1 2 0 by blast
qed

text \<open>
  Claim C3, where the code departs from it.  \<open>DeleteCatMatch\<close> has no requester:
  it asks the repository about the fixed user id \<open>e91ce26e-...\<close> (the source marks it
  \<open>TODO: delete after auth api finish\<close>).  In the store below the match \<open>m-1\<close> is
  waiting and was issued by \<open>user-1\<close>: the repository says that \<open>user-1\<close> may
  delete it, and its status is \<open>waiting\<close>.  Still the service answers
  \<open>NotFound\<close> and leaves the row in place, whoever asks.
\<close>

theorem DeleteCatMatch_ignores_requester:
  "spec_CanDeleteCatMatch False waitingDb ''m-1'' ''user-1'' = Inr True \<and>
   spec_GetStatusCatMatchByID False waitingDb ''m-1'' = Inr ''waiting'' \<and>
   fst (DeleteCatMatch (specCatMatchRepository noConstraint False) envOk waitingDb ''m-1'')
     = Some (NewNotFoundError ''Cat match request is not found'') \<and>
   fst (snd (DeleteCatMatch (specCatMatchRepository noConstraint False) envOk waitingDb ''m-1''))
     = waitingDb"
  by (simp add: DeleteCatMatch_def tx_defs spec_repo_defs envOk_def Let_def placeholderUserId_def
      waitingDb_def validDb_def findCat_def mkRow_def insertedRow_def mkPayload_def scanCat_def)

text \<open>
  The order of the checks of \<open>DeleteCatMatch\<close>, for every repository, once the
  transaction has begun: the authorization check (about the fixed user id) comes
  first and answers \<open>NotFound\<close>; then the status check answers \<open>BadRequest\<close> for
  a match that is not \<open>waiting\<close>; only then is the row deleted and the transaction
  committed.  Every failure leaves the store unchanged.
\<close>

theorem DeleteCatMatch_order_of_checks:
  "\<not> begin_fails env \<Longrightarrow> DeleteCatMatch c env d ident = (res, d', txo) \<Longrightarrow>
   (case repo_CanDeleteCatMatch c d ident placeholderUserId of
      Inl err \<Rightarrow> res = Some (NewInternalServerError ''something went wrong'') \<and> d' = d
    | Inr canDelete \<Rightarrow>
        if \<not> canDelete then res = Some (NewNotFoundError ''Cat match request is not found'') \<and> d' = d
        else
          (case repo_GetStatusCatMatchByID c d ident of
             Inl err \<Rightarrow> res = Some (NewInternalServerError ''something went wrong'') \<and> d' = d
           | Inr status \<Rightarrow>
               if status \<noteq> ''waiting'' then
                 res = Some (NewBadRequest ''Cannot delete non waiting cat match request'') \<and> d' = d
               else
                 (case repo_DeleteCatMatch c d ident of
                    Inl err \<Rightarrow> res = Some (NewBadRequest ''Failed to create cat match'') \<and> d' = d
                  | Inr w \<Rightarrow>
                      if commit_fails env then
                        res = Some (NewInternalServerError ''Failed to commit transaction'') \<and> d' = d
                      else res = None \<and> d' = w)))"
  by (auto simp: DeleteCatMatch_def tx_defs Let_def split: sum.splits if_splits)

text \<open>
  An instance: the issuer's cat belongs to the fixed user id, the match is waiting,
  and the row is deleted.
\<close>

theorem DeleteCatMatch_order_of_checks_witness:
  "fst (DeleteCatMatch (specCatMatchRepository noConstraint False) envOk placeholderDb ''m-1'') = None \<and>
   tbl_cat_matches (fst (snd (DeleteCatMatch (specCatMatchRepository noConstraint False) envOk
      placeholderDb ''m-1''))) = []"
proof -
  let ?R = "DeleteCatMatch (specCatMatchRepository noConstraint False) envOk placeholderDb ''m-1''"
  have b: "\<not> begin_fails envOk" by (simp add: envOk_def)
  have R: "?R = (fst ?R, fst (snd ?R), snd (snd ?R))" by simp
  from DeleteCatMatch_order_of_checks [OF b R]
  show ?thesis
    by (simp add: spec_repo_defs envOk_def placeholderDb_def findCat_def mkRow_def insertedRow_def
        mkPayload_def scanCat_def)
qed


section \<open>Properties of the token check\<close>

lemma bind_cases:
  "fst (bindTokenToUserEntity u claim) = None \<longleftrightarrow>
     (\<exists>uid name. claim ''id'' = Some (UUIDClaim uid) \<and> claim ''name'' = Some (StringClaim name))"
  by (auto simp: bindTokenToUserEntity_def Let_def split: option.splits claim_value.splits)

lemma bind_result:
  "claim ''id'' = Some (UUIDClaim uid) \<Longrightarrow> claim ''name'' = Some (StringClaim name) \<Longrightarrow>
   bindTokenToUserEntity u claim = (None, u\<lparr>user_Id := uid, user_Name := name\<rparr>)"
  by (simp add: bindTokenToUserEntity_def)

lemma bind_error:
  "fst (bindTokenToUserEntity u claim) = Some e \<Longrightarrow> e = invalidTokenErr"
  by (auto simp: bindTokenToUserEntity_def Let_def split: option.splits claim_value.splits)

text \<open>
  Claim C10.  For every Authorization header, parser and user: (1) unless the header
  starts with \<open>Bearer\<close> and \<open>strings.Fields\<close> splits it into exactly two fields,
  \<open>ValidateToken\<close> returns an \<open>Unauthenticated\<close> error; (2) every error it
  returns is an \<open>Unauthenticated\<close> error; (3) it returns no error only when the
  second field parsed to a valid token with map claims whose \<open>id\<close> is a
  \<open>uuid.UUID\<close> value and whose \<open>name\<close> is a string, and then the user carries
  that id and name; (4) for a well-formed header whose token parses to map claims with
  a string \<open>id\<close> (what JSON decoding produces), it returns the invalid-token error.
\<close>

theorem ValidateToken_bearer_and_claims:
  "(\<not> (HasPrefix hdr (runes ''Bearer'') \<and> length (Fields hdr) = 2) \<longrightarrow>
      (\<exists>msg. fst (ValidateToken jwt_Parse u hdr) = Some (NewUnauthenticatedError msg))) \<and>
   (\<forall>e. fst (ValidateToken jwt_Parse u hdr) = Some e \<longrightarrow> (\<exists>msg. e = NewUnauthenticatedError msg)) \<and>
   (fst (ValidateToken jwt_Parse u hdr) = None \<longrightarrow>
      (\<exists>token claims uid name.
          jwt_Parse (Fields hdr ! 1) (keyFunc u) = Inr token \<and>
          tok_Claims token = MapClaims claims \<and> tok_Valid token \<and>
          claims ''id'' = Some (UUIDClaim uid) \<and> claims ''name'' = Some (StringClaim name) \<and>
          snd (ValidateToken jwt_Parse u hdr) = u\<lparr>user_Id := uid, user_Name := name\<rparr>)) \<and>
   (\<forall>token claims s.
       HasPrefix hdr (runes ''Bearer'') \<and> length (Fields hdr) = 2 \<and>
       jwt_Parse (Fields hdr ! 1) (keyFunc u) = Inr token \<and>
       tok_Claims token = MapClaims claims \<and> claims ''id'' = Some (StringClaim s)
       \<longrightarrow> fst (ValidateToken jwt_Parse u hdr) = Some invalidTokenErr)"
proof (intro conjI allI impI)
  assume "\<not> (HasPrefix hdr (runes ''Bearer'') \<and> length (Fields hdr) = 2)"
  then show "\<exists>msg. fst (ValidateToken jwt_Parse u hdr) = Some (NewUnauthenticatedError msg)"
    by (auto simp: ValidateToken_def Let_def)
next
  fix e assume "fst (ValidateToken jwt_Parse u hdr) = Some e"
  then show "\<exists>msg. e = NewUnauthenticatedError msg"
    by (auto simp: ValidateToken_def Let_def parseToken_def invalidTokenErr_def
        split: if_splits sum.splits token_claims.splits dest!: bind_error)
next
  assume ok: "fst (ValidateToken jwt_Parse u hdr) = None"
  then obtain token claims where
    p: "jwt_Parse (Fields hdr ! 1) (keyFunc u) = Inr token"
    and c: "tok_Claims token = MapClaims claims" and v: "tok_Valid token"
    and b: "ValidateToken jwt_Parse u hdr = bindTokenToUserEntity u claims"
    by (auto simp: ValidateToken_def Let_def parseToken_def
        split: if_splits sum.splits token_claims.splits)
  from ok b obtain uid name where
    "claims ''id'' = Some (UUIDClaim uid)" "claims ''name'' = Some (StringClaim name)"
    by (auto simp: bind_cases)
  with p c v b show "\<exists>token claims uid name.
          jwt_Parse (Fields hdr ! 1) (keyFunc u) = Inr token \<and>
          tok_Claims token = MapClaims claims \<and> tok_Valid token \<and>
          claims ''id'' = Some (UUIDClaim uid) \<and> claims ''name'' = Some (StringClaim name) \<and>
          snd (ValidateToken jwt_Parse u hdr) = u\<lparr>user_Id := uid, user_Name := name\<rparr>"
    by (auto simp: bind_result)
next
  fix token claims s
  assume "HasPrefix hdr (runes ''Bearer'') \<and> length (Fields hdr) = 2 \<and>
       jwt_Parse (Fields hdr ! 1) (keyFunc u) = Inr token \<and>
       tok_Claims token = MapClaims claims \<and> claims ''id'' = Some (StringClaim s)"
  then show "fst (ValidateToken jwt_Parse u hdr) = Some invalidTokenErr"
    by (simp add: ValidateToken_def Let_def parseToken_def bindTokenToUserEntity_def)
qed

lemma hdr_fields: "Fields (runes ''Bearer abc'') = [runes ''Bearer'', runes ''abc'']"
  by (simp add: runes_def isSpace_def)

text \<open>
  Instances: a parsed token with a string \<open>id\<close> is refused as invalid, and a header
  that does not start with \<open>Bearer\<close> is refused.
\<close>

theorem ValidateToken_bearer_and_claims_witness:
  "fst (ValidateToken (exampleParser (StringClaim ''u-1'')) exampleUser (runes ''Bearer abc''))
     = Some invalidTokenErr \<and>
   (\<exists>msg. fst (ValidateToken (exampleParser (UUIDClaim ''u-1'')) exampleUser (runes ''Basic abc''))
     = Some (NewUnauthenticatedError msg))"
proof -
  have pre: "HasPrefix (runes ''Bearer abc'') (runes ''Bearer'')"
    by (simp add: HasPrefix_def runes_def)
  have npre: "\<not> HasPrefix (runes ''Basic abc'') (runes ''Bearer'')"
    by (simp add: HasPrefix_def runes_def)
  have len: "length (Fields (runes ''Bearer abc'')) = 2"
    by (simp add: hdr_fields)
  let ?tok = "\<lparr>tok_Method = SigningMethodHMAC,
          tok_Claims = MapClaims [''id'' \<mapsto> StringClaim ''u-1'', ''name'' \<mapsto> StringClaim ''bob''],
          tok_Valid = True\<rparr>"
  have p: "exampleParser (StringClaim ''u-1'') (Fields (runes ''Bearer abc'') ! 1) (keyFunc exampleUser)
            = Inr ?tok"
    by (simp add: exampleParser_def)
  have c: "tok_Claims ?tok = MapClaims [''id'' \<mapsto> StringClaim ''u-1'', ''name'' \<mapsto> StringClaim ''bob'']"
    by simp
  have i: "[''id'' \<mapsto> StringClaim ''u-1'', ''name'' \<mapsto> StringClaim ''bob''] ''id'' = Some (StringClaim ''u-1'')"
    by simp
  from ValidateToken_bearer_and_claims
         [of "runes ''Bearer abc''" "exampleParser (StringClaim ''u-1'')" exampleUser]
       pre len p c i
  have 1: "fst (ValidateToken (exampleParser (StringClaim ''u-1'')) exampleUser (runes ''Bearer abc''))
     = Some invalidTokenErr"
    by blast
  from ValidateToken_bearer_and_claims
         [of "runes ''Basic abc''" "exampleParser (UUIDClaim ''u-1'')" exampleUser] npre
  have 2: "\<exists>msg. fst (ValidateToken (exampleParser (UUIDClaim ''u-1'')) exampleUser (runes ''Basic abc''))
     = Some (NewUnauthenticatedError msg)"
    by blast
  from 1 2 show ?thesis by blast
qed

section \<open>Properties of the add-cat handler\<close>

lemma checkImageUrls_None:
  "checkImageUrls P urls = None \<longleftrightarrow> list_all (\<lambda>u. u \<noteq> [] \<and> P u) urls"
  by (induction urls) auto

lemma handler_accepts:
  assumes "handlerChecks P k"
  shows "HandleAddNewCat P exec_err d (Inr k) =
     (case exec_err of
        Some err \<Rightarrow> (\<lparr>http_status = 500, http_body = ErrorBody err\<rparr>, d)
      | None \<Rightarrow> (\<lparr>http_status = 201, http_body = SuccessBody (cat_ID k) (cat_CreatedAt k)\<rparr>,
                 d\<lparr>tbl_cats := tbl_cats d @ [handlerRow k]\<rparr>))"
proof -
  from assms have u: "checkImageUrls P (cat_ImageUrls k) = None"
    by (simp add: handlerChecks_def checkImageUrls_None)
  from assms have "cat_ImageUrls k \<noteq> []" by (simp add: handlerChecks_def)
  then have l: "\<not> length (cat_ImageUrls k) < 1" by (cases "cat_ImageUrls k") simp_all
  from assms u l show ?thesis
    by (simp add: HandleAddNewCat_def handlerChecks_def not_less Suc_le_eq)
qed

lemma handler_rejects:
  assumes "\<not> handlerChecks P k"
  shows "\<exists>msg. HandleAddNewCat P exec_err d (Inr k) = (badRequest msg, d)"
proof (cases "checkImageUrls P (cat_ImageUrls k)")
  case None
  then have "list_all (\<lambda>u. u \<noteq> [] \<and> P u) (cat_ImageUrls k)"
    by (simp add: checkImageUrls_None)
  with assms have
    "length (cat_Name k) < 1 \<or> length (cat_Name k) > 30 \<or> cat_Race k \<notin> set CatRace \<or>
     cat_Sex k \<notin> set CatSex \<or> cat_AgeInMonth k < 1 \<or> cat_AgeInMonth k > 120082 \<or>
     length (cat_Description k) < 1 \<or> length (cat_Description k) > 200 \<or>
     length (cat_ImageUrls k) < 1"
    by (auto simp: handlerChecks_def Suc_le_eq)
  then show ?thesis
    by (simp add: HandleAddNewCat_def) blast
next
  case (Some msg)
  then show ?thesis
    by (simp add: HandleAddNewCat_def) blast
qed

text \<open>
  What the handler enforces, with lengths in bytes: a request that fails one of its
  tests is answered 400 and the store is unchanged; one that passes them all is
  answered 201 and the store gains one row with the cat's eight fields, not matched,
  without owner and not deleted, when the INSERT succeeds, and is answered 500 with
  the store unchanged when it fails; a body that does not bind is answered 400.
\<close>

theorem HandleAddNewCat_byte_lengths:
  "(\<not> handlerChecks P k \<longrightarrow>
      http_status (fst (HandleAddNewCat P exec_err d (Inr k))) = 400 \<and>
      snd (HandleAddNewCat P exec_err d (Inr k)) = d) \<and>
   (handlerChecks P k \<and> exec_err = None \<longrightarrow>
      fst (HandleAddNewCat P exec_err d (Inr k)) =
        \<lparr>http_status = 201, http_body = SuccessBody (cat_ID k) (cat_CreatedAt k)\<rparr> \<and>
      (\<exists>r. snd (HandleAddNewCat P exec_err d (Inr k)) = d\<lparr>tbl_cats := tbl_cats d @ [r]\<rparr> \<and>
           row_id r = cat_ID k \<and> row_created_at r = cat_CreatedAt k \<and>
           row_name r = cat_Name k \<and> row_race r = cat_Race k \<and> row_sex r = cat_Sex k \<and>
           row_age_in_month r = cat_AgeInMonth k \<and> row_description r = cat_Description k \<and>
           row_image_urls r = cat_ImageUrls k \<and> row_has_matched r = False \<and>
           row_owned_by_id r = None \<and> row_deleted r = False)) \<and>
   (\<forall>err. handlerChecks P k \<and> exec_err = Some err \<longrightarrow>
      HandleAddNewCat P exec_err d (Inr k) = (\<lparr>http_status = 500, http_body = ErrorBody err\<rparr>, d)) \<and>
   HandleAddNewCat P exec_err d (Inl bindErr) = (badRequest bindErr, d)"
proof (intro conjI impI allI)
  assume "\<not> handlerChecks P k"
  from handler_rejects [OF this, of exec_err d] obtain msg where
    "HandleAddNewCat P exec_err d (Inr k) = (badRequest msg, d)" ..
  then show "http_status (fst (HandleAddNewCat P exec_err d (Inr k))) = 400"
    and "snd (HandleAddNewCat P exec_err d (Inr k)) = d"
    by (simp_all add: badRequest_def)
next
  assume h: "handlerChecks P k \<and> exec_err = None"
  then show "fst (HandleAddNewCat P exec_err d (Inr k)) =
        \<lparr>http_status = 201, http_body = SuccessBody (cat_ID k) (cat_CreatedAt k)\<rparr>"
    by (simp add: handler_accepts)
  from h have "snd (HandleAddNewCat P exec_err d (Inr k)) = d\<lparr>tbl_cats := tbl_cats d @ [handlerRow k]\<rparr>"
    by (simp add: handler_accepts)
  then show "\<exists>r. snd (HandleAddNewCat P exec_err d (Inr k)) = d\<lparr>tbl_cats := tbl_cats d @ [r]\<rparr> \<and>
           row_id r = cat_ID k \<and> row_created_at r = cat_CreatedAt k \<and>
           row_name r = cat_Name k \<and> row_race r = cat_Race k \<and> row_sex r = cat_Sex k \<and>
           row_age_in_month r = cat_AgeInMonth k \<and> row_description r = cat_Description k \<and>
           row_image_urls r = cat_ImageUrls k \<and> row_has_matched r = False \<and>
           row_owned_by_id r = None \<and> row_deleted r = False"
    by (intro exI [of _ "handlerRow k"]) (simp add: handlerRow_def)
next
  fix err assume "handlerChecks P k \<and> exec_err = Some err"
  then show "HandleAddNewCat P exec_err d (Inr k) =
      (\<lparr>http_status = 500, http_body = ErrorBody err\<rparr>, d)"
    by (simp add: handler_accepts)
next
  show "HandleAddNewCat P exec_err d (Inl bindErr) = (badRequest bindErr, d)"
    by (simp add: HandleAddNewCat_def)
qed

text \<open>
  An instance: a Persian cat passes the tests and is inserted with 201; a cat of race
  \<open>Dog\<close> is refused with 400 and the store is unchanged.
\<close>

theorem HandleAddNewCat_byte_lengths_witness:
  "handlerChecks exampleParseRequestURI (exampleCat ''Persian'') \<and>
   http_status (fst (HandleAddNewCat exampleParseRequestURI None validDb (Inr (exampleCat ''Persian'')))) = 201 \<and>
   \<not> handlerChecks exampleParseRequestURI (exampleCat ''Dog'') \<and>
   http_status (fst (HandleAddNewCat exampleParseRequestURI None validDb (Inr (exampleCat ''Dog'')))) = 400 \<and>
   snd (HandleAddNewCat exampleParseRequestURI None validDb (Inr (exampleCat ''Dog''))) = validDb"
proof -
  have good: "handlerChecks exampleParseRequestURI (exampleCat ''Persian'')"
    by (simp add: handlerChecks_def exampleCat_def exampleParseRequestURI_def CatRace_def CatSex_def)
  have bad: "\<not> handlerChecks exampleParseRequestURI (exampleCat ''Dog'')"
    by (simp add: handlerChecks_def exampleCat_def CatRace_def)
  from HandleAddNewCat_byte_lengths [of exampleParseRequestURI "exampleCat ''Persian''" None validDb]
       HandleAddNewCat_byte_lengths [of exampleParseRequestURI "exampleCat ''Dog''" None validDb]
       good bad
  show ?thesis by simp
qed

lemma accentedName_counts: "charCount accentedName = 16" "length accentedName = 32"
  by (simp_all add: accentedName_def charCount_def isContinuation_def eval_nat_numeral)

text \<open>
  Claim C7, where the code departs from it.  The name \<open>accentedName\<close> is sixteen
  times the letter e with an acute accent: 16 characters, 32 bytes of UTF-8.  The
  cat below meets every constraint of the claim (its name has between 1 and 30
  characters), and the handler still refuses it with 400, under its own message
  "name length should be between 1 and 30 characters", and inserts nothing: it
  compares \<open>len\<close>, the number of bytes.
\<close>

theorem HandleAddNewCat_counts_bytes:
  "charCount (cat_Name accentedCat) = 16 \<and> length (cat_Name accentedCat) = 32 \<and>
   catConstraints exampleParseRequestURI accentedCat \<and>
   HandleAddNewCat exampleParseRequestURI None validDb (Inr accentedCat) =
     (badRequest ''name length should be between 1 and 30 characters'', validDb)"
proof -
  have n: "cat_Name accentedCat = accentedName" by (simp add: accentedCat_def)
  have c: "catConstraints exampleParseRequestURI accentedCat"
    by (simp add: catConstraints_def n accentedName_counts)
       (simp add: accentedCat_def exampleCat_def exampleParseRequestURI_def CatRace_def CatSex_def
          charCount_def isContinuation_def)
  have h: "HandleAddNewCat exampleParseRequestURI None validDb (Inr accentedCat) =
     (badRequest ''name length should be between 1 and 30 characters'', validDb)"
    by (simp add: HandleAddNewCat_def n accentedName_counts)
  from n c h show ?thesis by (simp add: accentedName_counts)
qed

section \<open>Properties of the filter builder\<close>

lemma processParam_template:
  "processParam P U uid st (key, v0 # vs) =
     Some (applyTemplate (template_of P key (classOf U key v0)) (boundArg key v0 uid) st)"
  by (auto simp: processParam_def template_of_def classOf_def boundArg_def applyTemplate_def Let_def
      split: option.splits)

lemma FindStringSubmatch_opr:
  "FindStringSubmatch v = Some (c, val) \<Longrightarrow> c \<in> set ''>=<''"
  by (induction v) (auto split: if_splits)

lemma template_column_operator:
  "template_of P key (classOf U key v0) = Where col opr \<Longrightarrow>
     col \<in> set (columns P) \<and> opr \<in> set operators"
  by (auto simp: template_of_def classOf_def columns_def operators_def
      split: if_splits option.splits dest!: FindStringSubmatch_opr)

lemma template_limit_offset:
  "template_of P key cls = LimitOffset kw \<Longrightarrow> kw = ''limit'' \<or> kw = ''offset''"
  by (auto simp: template_of_def split: if_splits option.splits prod.splits)

lemma isWhereFragment_iff:
  "isWhereFragment P n f \<longleftrightarrow>
     (\<exists>col opr i. col \<in> set (columns P) \<and> opr \<in> set operators \<and> 1 \<le> i \<and> i \<le> n \<and>
        f = col @ '' '' @ opr @ '' $'' @ show_nat i)"
  unfolding isWhereFragment_def list_ex_iff by (simp only: set_upt atLeastLessThan_iff less_Suc_eq_le Bex_def) blast

lemma isLimitOffsetFragment_iff:
  "isLimitOffsetFragment n f \<longleftrightarrow>
     (\<exists>kw i. (kw = ''limit'' \<or> kw = ''offset'') \<and> 1 \<le> i \<and> i \<le> n \<and> f = kw @ '' $'' @ show_nat i)"
  unfolding isLimitOffsetFragment_def list_ex_iff
  by (simp only: set_upt atLeastLessThan_iff less_Suc_eq_le Bex_def set_simps insert_iff empty_iff) blast

lemma isWhereFragment_mono: "isWhereFragment P n f \<Longrightarrow> n \<le> m \<Longrightarrow> isWhereFragment P m f"
  unfolding isWhereFragment_iff using le_trans by blast

lemma isLimitOffsetFragment_mono: "isLimitOffsetFragment n f \<Longrightarrow> n \<le> m \<Longrightarrow> isLimitOffsetFragment m f"
  unfolding isLimitOffsetFragment_iff using le_trans by blast

lemma wellFormed_applyTemplate:
  assumes "wellFormed P st"
  shows "wellFormed P (applyTemplate (template_of P key (classOf U key v0)) arg st)"
proof (cases "template_of P key (classOf U key v0)")
  case NoClause
  with assms show ?thesis by (simp add: applyTemplate_def)
next
  case (LimitOffset kw)
  then have kw: "kw = ''limit'' \<or> kw = ''offset''" by (rule template_limit_offset)
  have new: "isLimitOffsetFragment (Suc (length (args st))) (kw @ '' '' @ placeholder (args st))"
    unfolding isLimitOffsetFragment_iff placeholder_def using kw
    by (intro exI [of _ kw] exI [of _ "Suc (length (args st))"]) simp
  from assms have
    w: "list_all (isWhereFragment P (Suc (length (args st)))) (whereClause st)"
    and l: "list_all (isLimitOffsetFragment (Suc (length (args st)))) (limitOffsetClause st)"
    by (auto simp: wellFormed_def list_all_iff
        intro: isWhereFragment_mono isLimitOffsetFragment_mono)
  with assms new LimitOffset show ?thesis
    by (simp add: applyTemplate_def wellFormed_def)
next
  case (Where col opr)
  then have co: "col \<in> set (columns P)" "opr \<in> set operators"
    using template_column_operator by blast+
  have new: "isWhereFragment P (Suc (length (args st))) (col @ '' '' @ opr @ '' '' @ placeholder (args st))"
    unfolding isWhereFragment_iff placeholder_def using co
    by (intro exI [of _ col] exI [of _ opr] exI [of _ "Suc (length (args st))"]) simp
  from assms have
    w: "list_all (isWhereFragment P (Suc (length (args st)))) (whereClause st)"
    and l: "list_all (isLimitOffsetFragment (Suc (length (args st)))) (limitOffsetClause st)"
    by (auto simp: wellFormed_def list_all_iff
        intro: isWhereFragment_mono isLimitOffsetFragment_mono)
  with assms new Where show ?thesis
    by (simp add: applyTemplate_def wellFormed_def)
qed

lemma processParams_wellFormed:
  "wellFormed P st \<Longrightarrow> processParams P U uid st ps = Some st' \<Longrightarrow> wellFormed P st'"
proof (induction ps arbitrary: st)
  case Nil
  then show ?case by simp
next
  case (Cons kv ps)
  obtain key vs where kv: "kv = (key, vs)" by (cases kv)
  from Cons.prems(2) obtain v0 others where vs: "vs = v0 # others"
    by (cases vs) (auto simp: kv processParam_def)
  from Cons.prems(2) have
    "processParams P U uid
       (applyTemplate (template_of P key (classOf U key v0)) (boundArg key v0 uid) st) ps = Some st'"
    by (simp add: kv vs processParam_template)
  with Cons.IH wellFormed_applyTemplate [OF Cons.prems(1)] show ?case by blast
qed

lemma sameSql_applyTemplate:
  "sameSql s s' \<Longrightarrow> sameSql (applyTemplate t a s) (applyTemplate t a' s')"
  by (cases t) (simp_all add: sameSql_def applyTemplate_def placeholder_def)

lemma processParams_sameSql:
  "map fst ps = map fst qs \<Longrightarrow> map (valueClass U) ps = map (valueClass U) qs \<Longrightarrow>
   sameSql st st' \<Longrightarrow> processParams P U uid st ps = Some s \<Longrightarrow>
   \<exists>s'. processParams P U uid' st' qs = Some s' \<and> sameSql s s'"
proof (induction ps arbitrary: qs st st')
  case Nil
  then show ?case by simp
next
  case (Cons kv ps)
  from Cons.prems(1) obtain kv' qs' where qs: "qs = kv' # qs'" by (cases qs) auto
  obtain key vs where kv: "kv = (key, vs)" by (cases kv)
  from Cons.prems(1) qs kv obtain vs' where kv': "kv' = (key, vs')" by (cases kv') auto
  from Cons.prems(4) obtain v0 others where vs: "vs = v0 # others"
    by (cases vs) (auto simp: kv processParam_def)
  from Cons.prems(2) qs kv kv' vs obtain v0' others' where
    vs': "vs' = v0' # others'" and cls: "classOf U key v0' = classOf U key v0"
    by (cases vs') (auto simp: valueClass_def)
  let ?t = "template_of P key (classOf U key v0)"
  from Cons.prems(4) have
    run: "processParams P U uid (applyTemplate ?t (boundArg key v0 uid) st) ps = Some s"
    by (simp add: kv vs processParam_template)
  have "sameSql (applyTemplate ?t (boundArg key v0 uid) st) (applyTemplate ?t (boundArg key v0' uid') st')"
    using Cons.prems(3) by (rule sameSql_applyTemplate)
  from Cons.IH [OF _ _ this run, of qs'] Cons.prems(1,2) qs
  obtain s' where "processParams P U uid' (applyTemplate ?t (boundArg key v0' uid') st') qs' = Some s'"
    and "sameSql s s'" by auto
  then show ?case
    by (auto simp: qs kv' vs' processParam_template cls)
qed

text \<open>
  Claim C8, as the code has it.  Whenever the filter builder returns: every WHERE
  fragment is \<open>column operator $i\<close> with an allow-listed column, an operator among
  \<open>=\<close>, \<open>>\<close>, \<open><\<close>, \<open>!=\<close> and \<open>i\<close> the position of a bound argument;
  every LIMIT/OFFSET fragment is \<open>limit $i\<close> or \<open>offset $i\<close>; each fragment binds
  one argument.  The values reach the SQL text only through their class: any
  parameter list with the same keys in the same order whose values are of the same
  class (empty or not; for \<open>id\<close>, parsed as a UUID or not; for \<open>ageInMonth\<close>, the
  operator found, if any; for \<open>owned\<close>, \<open>true\<close>, \<open>false\<close> or neither), for
  any user, yields the same WHERE and LIMIT/OFFSET fragments, hence the same SQL text.
\<close>

theorem validateGetAllCatsQueryParams_templates:
  assumes "validateGetAllCatsQueryParams P U ps uid = Some (wc, loc, a)"
  shows "list_all (isWhereFragment P (length a)) wc \<and>
         list_all (isLimitOffsetFragment (length a)) loc \<and>
         length wc + length loc = length a \<and>
         (\<forall>qs uid'. sameShape U ps qs \<longrightarrow>
            (\<exists>a'. validateGetAllCatsQueryParams P U qs uid' = Some (wc, loc, a') \<and>
                   length a' = length a))"
proof -
  let ?st0 = "\<lparr>whereClause = [], limitOffsetClause = [], args = []\<rparr>"
  from assms obtain st where
    run: "processParams P U uid ?st0 ps = Some st"
    and st: "wc = whereClause st" "loc = limitOffsetClause st" "a = args st"
    by (auto simp: validateGetAllCatsQueryParams_def split: option.splits)
  have "wellFormed P ?st0" by (simp add: wellFormed_def)
  from processParams_wellFormed [OF this run]
  have wf: "list_all (isWhereFragment P (length a)) wc \<and>
         list_all (isLimitOffsetFragment (length a)) loc \<and>
         length wc + length loc = length a"
    by (simp add: wellFormed_def st)
  have "\<exists>a'. validateGetAllCatsQueryParams P U qs uid' = Some (wc, loc, a') \<and> length a' = length a"
    if "sameShape U ps qs" for qs uid'
  proof -
    have "sameSql ?st0 ?st0" by (simp add: sameSql_def)
    with that run obtain s' where "processParams P U uid' ?st0 qs = Some s'" and "sameSql st s'"
      unfolding sameShape_def using processParams_sameSql by blast
    then show ?thesis
      by (simp add: validateGetAllCatsQueryParams_def sameSql_def st)
  qed
  with wf show ?thesis by simp
qed

lemmas validate_eval = validateGetAllCatsQueryParams_def processParam_def exampleCatQueryParams_def
  placeholder_def show_nat.simps digit_def Let_def

text \<open>
  An instance: two requests with different values of the same classes, from two
  users, build the same fragments.
\<close>

theorem validateGetAllCatsQueryParams_templates_witness:
  "validateGetAllCatsQueryParams exampleCatQueryParams (\<lambda>v. True)
      [(''owned'', [''true'']), (''ageInMonth'', [''x>12'']), (''limit'', [[]])] ''user-1''
     = Some ([''owned_by_id = $1'', ''age_in_month > $2''], [''limit $3''],
             [''user-1'', ''12'', ''5'']) \<and>
   list_all (isWhereFragment exampleCatQueryParams 3) [''owned_by_id = $1'', ''age_in_month > $2''] \<and>
   (\<exists>a'. validateGetAllCatsQueryParams exampleCatQueryParams (\<lambda>v. True)
      [(''owned'', [''true'']), (''ageInMonth'', [''>7'']), (''limit'', [''10''])] ''user-2''
     = Some ([''owned_by_id = $1'', ''age_in_month > $2''], [''limit $3''], a'))"
proof -
  let ?ps = "[(''owned'', [''true'']), (''ageInMonth'', [''x>12'']), (''limit'', [[]])]"
  let ?qs = "[(''owned'', [''true'']), (''ageInMonth'', [''>7'']), (''limit'', [''10''])]"
  have v: "validateGetAllCatsQueryParams exampleCatQueryParams (\<lambda>v. True) ?ps ''user-1''
     = Some ([''owned_by_id = $1'', ''age_in_month > $2''], [''limit $3''],
             [''user-1'', ''12'', ''5''])"
    by (simp add: validate_eval isDigit_def)
  have s: "sameShape (\<lambda>v. True) ?ps ?qs"
    by (simp add: sameShape_def valueClass_def classOf_def isDigit_def)
  note t = validateGetAllCatsQueryParams_templates [OF v]
  from t have f: "list_all (isWhereFragment exampleCatQueryParams 3)
      [''owned_by_id = $1'', ''age_in_month > $2'']"
    by (simp add: eval_nat_numeral)
  from t s have e: "\<exists>a'. validateGetAllCatsQueryParams exampleCatQueryParams (\<lambda>v. True) ?qs ''user-2''
     = Some ([''owned_by_id = $1'', ''age_in_month > $2''], [''limit $3''], a')"
    by blast
  from f e v show ?thesis by blast
qed

text \<open>
  Against C8's last sentence as stated: \<open>owned=true\<close> and \<open>owned=false\<close> have the
  same keys and no \<open>ageInMonth\<close>, and yet their SQL texts differ (\<open>=\<close> against
  \<open>!=\<close>).
\<close>

theorem same_keys_different_sql_counterexample:
  "map fst [(''owned'', [''true''])] = map fst [(''owned'', [''false''])] \<and>
   validateGetAllCatsQueryParams exampleCatQueryParams (\<lambda>v. True) [(''owned'', [''true''])] ''user-1''
     = Some ([''owned_by_id = $1''], [], [''user-1'']) \<and>
   validateGetAllCatsQueryParams exampleCatQueryParams (\<lambda>v. True) [(''owned'', [''false''])] ''user-1''
     = Some ([''owned_by_id != $1''], [], [''user-1'']) \<and>
   getAllCatsQuery [''owned_by_id = $1''] [] \<noteq> getAllCatsQuery [''owned_by_id != $1''] []"
  by (simp add: validate_eval getAllCatsQuery_def)

section \<open>Properties of soft deletion\<close>

lemma scanRows_map: "scanRows acc rows = acc @ map scanCat rows"
  by (induction rows arbitrary: acc) simp_all

subsection \<open>The words of the SQL text\<close>

lemma takeWhile_before_blank:
  "isBlank c \<Longrightarrow> takeWhile (\<lambda>x. \<not> isBlank x) (xs @ c # ys) = takeWhile (\<lambda>x. \<not> isBlank x) xs"
  by (induction xs) simp_all

lemma dropWhile_before_blank:
  "isBlank c \<Longrightarrow>
   dropWhile (\<lambda>x. \<not> isBlank x) (xs @ c # ys) = dropWhile (\<lambda>x. \<not> isBlank x) xs @ c # ys"
  by (induction xs) simp_all

lemma sqlWords_append:
  "isBlank c \<Longrightarrow> sqlWords (xs @ c # ys) = sqlWords xs @ sqlWords ys"
proof (induction xs rule: sqlWords.induct)
  case 1
  then show ?case by simp
next
  case (2 ch rest)
  then show ?case
    by (simp add: takeWhile_before_blank dropWhile_before_blank)
qed

lemma sqlWords_word: "wordLike w \<Longrightarrow> sqlWords w = [w]"
proof (cases w)
  case Nil
  assume "wordLike w"
  with Nil show ?thesis by (simp add: wordLike_def)
next
  case (Cons ch rest)
  assume "wordLike w"
  with Cons have "\<not> isBlank ch" and "\<forall>x \<in> set rest. \<not> isBlank x"
    by (auto simp: wordLike_def list_ex_iff)
  then have tw: "takeWhile (\<lambda>x. \<not> isBlank x) rest = rest"
    and dw: "dropWhile (\<lambda>x. \<not> isBlank x) rest = []"
    by simp_all
  have "sqlWords (ch # rest) = [ch # rest]"
    using \<open>\<not> isBlank ch\<close> by (simp only: sqlWords.simps tw dw if_False)
  with Cons show ?thesis by simp
qed

lemma sqlWords_word_then:
  "wordLike w \<Longrightarrow> isBlank c \<Longrightarrow> sqlWords (w @ c # ys) = w # sqlWords ys"
  by (simp add: sqlWords_append sqlWords_word)

lemma digit_not_blank: "n < 10 \<Longrightarrow> \<not> isBlank (digit n)"
proof -
  assume "n < 10"
  then have "n \<in> {0, 1, 2, 3, 4, 5, 6, 7, 8, 9}" by auto
  then show ?thesis
    by (auto simp: digit_def isBlank_def)
qed

lemma show_nat_no_blank: "\<not> list_ex isBlank (show_nat n)"
proof (induction n rule: show_nat.induct)
  case (1 n)
  show ?case
  proof (cases "n < 10")
    case True
    then show ?thesis
      by (subst show_nat.simps) (simp add: digit_not_blank)
  next
    case False
    with 1 have "\<not> list_ex isBlank (show_nat (n div 10))" by simp
    moreover have "\<not> isBlank (digit (n mod 10))" by (simp add: digit_not_blank)
    ultimately show ?thesis
      using False by (subst show_nat.simps) simp
  qed
qed

lemma show_nat_not_Nil: "show_nat n \<noteq> []"
  by (subst show_nat.simps) simp

lemma wordLike_placeholder: "wordLike (CHR ''$'' # show_nat i)"
  using show_nat_no_blank [of i] by (simp add: wordLike_def isBlank_def)

lemma wordLike_operator: "opr \<in> set operators \<Longrightarrow> wordLike opr"
  by (auto simp: operators_def wordLike_def isBlank_def)

lemma wordLike_column:
  "list_all wordLike P \<Longrightarrow> col \<in> set (columns P) \<Longrightarrow> wordLike col"
  by (auto simp: columns_def list_all_iff) (simp_all add: wordLike_def isBlank_def)

lemma sqlWords_fragment:
  assumes "list_all wordLike P" and "isWhereFragment P n f"
  shows "\<exists>c opr v. sqlWords f = [c, opr, v]"
proof -
  from assms(2) obtain col opr i where
    col: "col \<in> set (columns P)" and opr: "opr \<in> set operators"
    and f: "f = col @ '' '' @ opr @ '' $'' @ show_nat i"
    unfolding isWhereFragment_iff by blast
  have f': "f = col @ CHR '' '' # (opr @ CHR '' '' # (CHR ''$'' # show_nat i))"
    by (simp add: f)
  have b: "isBlank CHR '' ''" by (simp add: isBlank_def)
  have "sqlWords f = [col, opr, CHR ''$'' # show_nat i]"
    unfolding f'
    by (simp only: sqlWords_word_then [OF wordLike_column [OF assms(1) col] b]
        sqlWords_word_then [OF wordLike_operator [OF opr] b]
        sqlWords_word [OF wordLike_placeholder])
  then show ?thesis by blast
qed

lemma sqlWords_join:
  "sqlWords (''AND '' @ strings_Join (f # fs) '' AND '') =
     concat (map (\<lambda>g. ''AND'' # sqlWords g) (f # fs))"
proof (induction fs arbitrary: f)
  case Nil
  have w: "wordLike ''AND''" by (simp add: wordLike_def isBlank_def)
  have b: "isBlank CHR '' ''" by (simp add: isBlank_def)
  have "''AND '' @ strings_Join [f] '' AND '' = ''AND'' @ CHR '' '' # f" by simp
  then show ?case
    by (simp only: sqlWords_word_then [OF w b]) simp
next
  case (Cons g gs)
  have w: "wordLike ''AND''" by (simp add: wordLike_def isBlank_def)
  have b: "isBlank CHR '' ''" by (simp add: isBlank_def)
  have "''AND '' @ strings_Join (f # g # gs) '' AND '' =
        ''AND'' @ CHR '' '' # (f @ CHR '' '' # (''AND '' @ strings_Join (g # gs) '' AND ''))"
    by simp
  then have "sqlWords (''AND '' @ strings_Join (f # g # gs) '' AND '') =
        sqlWords ''AND'' @ sqlWords f @ sqlWords (''AND '' @ strings_Join (g # gs) '' AND '')"
    by (simp only: sqlWords_append [OF b])
  then have "sqlWords (''AND '' @ strings_Join (f # g # gs) '' AND '') =
        ''AND'' # (sqlWords f @ sqlWords (''AND '' @ strings_Join (g # gs) '' AND ''))"
    by (simp only: sqlWords_word [OF w] append_Cons append_Nil)
  with Cons.IH [of g] show ?case by simp
qed

lemma sqlWords_baseQuery:
  "sqlWords baseQuery =
     [''SELECT'', ''id,'', ''name,'', ''race,'', ''sex,'', ''age_in_month,'', ''image_urls,'',
      ''description,'', ''created_at,'', ''has_matched'', ''FROM'', ''cats'', ''WHERE'',
      ''deleted'', ''='', ''false'']"
  by (simp add: baseQuery_def nl_def tab_def isBlank_def)

lemma sqlWords_baseQuery_append: "sqlWords (baseQuery @ rest) = sqlWords baseQuery @ sqlWords rest"
proof -
  define pre where "pre = butlast baseQuery"
  have bq: "baseQuery = pre @ [CHR 0x09]"
    by (simp add: pre_def baseQuery_def nl_def tab_def butlast_append)
  have b: "isBlank (CHR 0x09)" by (simp add: isBlank_def)
  have "sqlWords (baseQuery @ rest) = sqlWords pre @ sqlWords rest"
    unfolding bq using sqlWords_append [OF b, of pre rest] by simp
  moreover have "sqlWords baseQuery = sqlWords pre"
    unfolding bq using sqlWords_append [OF b, of pre "[]"] by simp
  ultimately show ?thesis by simp
qed

lemma sqlWords_query:
  "sqlWords (getAllCatsQuery wc loc) =
     sqlWords baseQuery @ concat (map (\<lambda>g. ''AND'' # sqlWords g) wc) @
     [''ORDER'', ''BY'', ''created_at'', ''DESC''] @ sqlWords (strings_Join loc '' '')"
proof -
  have b: "isBlank (CHR 0x0A)" by (simp add: isBlank_def)
  have tail: "sqlWords (xs @ nl @ ''ORDER BY created_at DESC'' @ nl @ ys) =
      sqlWords xs @ [''ORDER'', ''BY'', ''created_at'', ''DESC''] @ sqlWords ys" for xs ys
  proof -
    have "xs @ nl @ ''ORDER BY created_at DESC'' @ nl @ ys =
          xs @ CHR 0x0A # (''ORDER BY created_at DESC'' @ CHR 0x0A # ys)"
      by (simp add: nl_def)
    moreover have "sqlWords ''ORDER BY created_at DESC'' = [''ORDER'', ''BY'', ''created_at'', ''DESC'']"
      by (simp add: isBlank_def)
    ultimately show ?thesis
      by (simp only: sqlWords_append [OF b])
  qed
  show ?thesis
  proof (cases wc)
    case Nil
    have "getAllCatsQuery [] loc = baseQuery @ ([] @ nl @ ''ORDER BY created_at DESC'' @ nl @ strings_Join loc '' '')"
      by (simp add: getAllCatsQuery_def Let_def)
    then show ?thesis
      unfolding Nil by (simp only: sqlWords_baseQuery_append tail) simp
  next
    case (Cons f fs)
    have "getAllCatsQuery (f # fs) loc =
          baseQuery @ ((''AND '' @ strings_Join (f # fs) '' AND '') @ nl @
            ''ORDER BY created_at DESC'' @ nl @ strings_Join loc '' '')"
      by (simp add: getAllCatsQuery_def Let_def)
    then show ?thesis
      unfolding Cons by (simp only: sqlWords_baseQuery_append tail sqlWords_join)
  qed
qed

subsection \<open>The conditions of the SQL text\<close>

lemma parseConds_AND_chain:
  "list_all (\<lambda>ws. \<exists>c opr v. ws = [c, opr, v]) wss \<Longrightarrow>
   \<exists>cj. parseConds (c # opr # v # concat (map (\<lambda>ws. ''AND'' # ws) wss) @ ''ORDER'' # rest)
         = Some ([(c, opr, v) # cj], ''ORDER'' # rest)"
proof (induction wss arbitrary: c opr v)
  case Nil
  then show ?case by simp
next
  case (Cons ws wss)
  then obtain c' opr' v' where ws: "ws = [c', opr', v']" by auto
  from Cons.prems have "list_all (\<lambda>ws. \<exists>c opr v. ws = [c, opr, v]) wss" by simp
  from Cons.IH [OF this, of c' opr' v'] obtain cj where
    "parseConds (c' # opr' # v' # concat (map (\<lambda>ws. ''AND'' # ws) wss) @ ''ORDER'' # rest)
       = Some ([(c', opr', v') # cj], ''ORDER'' # rest)" ..
  then show ?case by (simp add: ws)
qed

lemma queryCats_not_deleted:
  assumes "selective window" and "list_all wordLike P"
    and "list_all (isWhereFragment P n) wc"
    and "queryCats sem window (getAllCatsQuery wc loc) qargs d = Inr rows"
  shows "\<forall>r \<in> set rows. r \<in> set (tbl_cats d) \<and> row_deleted r = False"
proof -
  let ?rest = "[''BY'', ''created_at'', ''DESC''] @ sqlWords (strings_Join loc '' '')"
  define cs where "cs = ''deleted'' # ''='' # ''false'' #
        concat (map (\<lambda>ws. ''AND'' # ws) (map sqlWords wc)) @ ''ORDER'' # ?rest"
  have wss: "list_all (\<lambda>ws. \<exists>c opr v. ws = [c, opr, v]) (map sqlWords wc)"
    using assms(3) sqlWords_fragment [OF assms(2)] by (auto simp: list_all_iff)
  have toks: "sqlWords (getAllCatsQuery wc loc) =
     [''SELECT'', ''id,'', ''name,'', ''race,'', ''sex,'', ''age_in_month,'', ''image_urls,'',
      ''description,'', ''created_at,'', ''has_matched'', ''FROM'', ''cats'', ''WHERE''] @ cs"
    by (simp add: cs_def sqlWords_query sqlWords_baseQuery comp_def)
  from parseConds_AND_chain [OF wss, of "''deleted''" "''=''" "''false''" ?rest] obtain cj where
    p: "parseConds cs = Some ([(''deleted'', ''='', ''false'') # cj], ''ORDER'' # ?rest)"
    unfolding cs_def ..
  from assms(4) have
    "window (''ORDER'' # ?rest) qargs
       (filter (\<lambda>r. list_ex (list_all (atomHolds sem qargs r)) [(''deleted'', ''='', ''false'') # cj])
          (tbl_cats d)) = Inr rows"
    unfolding queryCats_def toks by (simp add: p)
  with assms(1) have
    "set rows \<subseteq> set (filter (\<lambda>r. list_ex (list_all (atomHolds sem qargs r))
        [(''deleted'', ''='', ''false'') # cj]) (tbl_cats d))"
    unfolding selective_def by blast
  then show ?thesis
    by (auto simp: atomHolds_def)
qed

lemma GetAllCats_rows:
  assumes "selective window" and "list_all wordLike P"
    and "GetAllCats P U sem window d user params = Some (Inr cats)"
  shows "\<forall>k \<in> set cats. \<exists>r \<in> set (tbl_cats d). row_deleted r = False \<and> k = scanCat r"
proof -
  from assms(3) obtain wc loc qargs rows where
    v: "validateGetAllCatsQueryParams P U params (user_Id user) = Some (wc, loc, qargs)"
    and q: "queryCats sem window (getAllCatsQuery wc loc) qargs d = Inr rows"
    and cats: "cats = map scanCat rows"
    by (auto simp: GetAllCats_def scanRows_map split: option.splits sum.splits)
  from v obtain st where
    run: "processParams P U (user_Id user) \<lparr>whereClause = [], limitOffsetClause = [], args = []\<rparr> params
            = Some st"
    and wc: "wc = whereClause st" and a: "qargs = args st"
    by (auto simp: validateGetAllCatsQueryParams_def split: option.splits)
  have "wellFormed P \<lparr>whereClause = [], limitOffsetClause = [], args = []\<rparr>"
    by (simp add: wellFormed_def)
  from processParams_wellFormed [OF this run]
  have "list_all (isWhereFragment P (length qargs)) wc"
    by (simp add: wellFormed_def wc a)
  from queryCats_not_deleted [OF assms(1,2) this q] cats show ?thesis by auto
qed

subsection \<open>The writers of the cat repository\<close>

lemma markDeleted_flagged: "flaggedDeleted catId r (markDeleted catId r)"
  by (cases "row_deleted r") (auto simp: flaggedDeleted_def markDeleted_def)

lemma DeleteCat_rows:
  "list_all2 (flaggedDeleted catId) (tbl_cats d) (tbl_cats (snd (DeleteCat None d catId)))"
  by (simp add: DeleteCat_def list_all2_map2 markDeleted_flagged list_all2_same)

lemma markDeleted_cols:
  "row_id (markDeleted c r) = row_id r"
  "row_deleted (markDeleted c r) = (row_deleted r \<or> row_id r = c)"
  by (simp_all add: markDeleted_def)

lemma updateRow_cols:
  "row_id (updateRow k r) = row_id r"
  "row_deleted (updateRow k r) = row_deleted r"
  by (simp_all add: updateRow_def)

lemma DeleteCat_allDeleted: "allDeleted catId (snd (DeleteCat None d catId))"
  by (auto simp: DeleteCat_def allDeleted_def list_all_iff markDeleted_cols)

lemma applyOp_allDeleted:
  "allDeleted catId d \<Longrightarrow> \<not> createsId catId op \<Longrightarrow> allDeleted catId (applyOp d op)"
  by (cases op)
     (auto simp: allDeleted_def list_all_iff CreateCat_def UpdateCat_def DeleteCat_def
        createdRow_def updateRow_cols markDeleted_cols split: option.splits)

lemma applyOp_hasRow: "hasRow catId d \<Longrightarrow> hasRow catId (applyOp d op)"
  by (cases op)
     (auto simp: hasRow_def list_ex_iff CreateCat_def UpdateCat_def DeleteCat_def
        updateRow_cols markDeleted_cols split: option.splits)

lemma applyOp_matches: "tbl_cat_matches (applyOp d op) = tbl_cat_matches d"
  by (cases op) (auto simp: CreateCat_def UpdateCat_def DeleteCat_def split: option.splits)

lemma foldl_allDeleted:
  "allDeleted catId d \<Longrightarrow> \<not> list_ex (createsId catId) ops \<Longrightarrow> allDeleted catId (foldl applyOp d ops)"
  by (induction ops arbitrary: d) (simp_all add: applyOp_allDeleted)

lemma foldl_hasRow: "hasRow catId d \<Longrightarrow> hasRow catId (foldl applyOp d ops)"
  by (induction ops arbitrary: d) (simp_all add: applyOp_hasRow)

lemma foldl_matches: "tbl_cat_matches (foldl applyOp d ops) = tbl_cat_matches d"
  by (induction ops arbitrary: d) (simp_all add: applyOp_matches)

lemma DeleteCat_hasRow: "hasRow catId d \<Longrightarrow> hasRow catId (snd (DeleteCat e d catId))"
  using applyOp_hasRow [of catId d "OpDeleteCat e catId"] by simp

subsection \<open>Deleted cats and the listing\<close>

text \<open>
  Claim C9.  A successful \<open>DeleteCat\<close> removes no row: row by row the table is as
  before except that the rows of the deleted id have \<open>deleted = true\<close>, and the
  matches are untouched.  The text \<open>GetAllCats\<close> sends is read as SQL: its words
  after \<open>FROM cats WHERE\<close> are the condition \<open>deleted = false\<close> and, joined to it
  by \<open>AND\<close> only, the fragments of the filter builder; so every cat it returns is
  the scan of a row with \<open>deleted = false\<close>.  Hence after \<open>DeleteCat catId\<close>, and
  after any later writes of the cat repository that do not insert a new row with that
  id, no cat returned by \<open>GetAllCats\<close> (for any user and query parameters) has that
  id, while its row and all matches remain in the store.  Assumed: the keys of the
  allow-list are single words, and ORDER BY, LIMIT and OFFSET only choose among the
  rows the conditions let through.
\<close>

theorem DeleteCat_soft_delete:
  assumes "selective window" and "list_all wordLike P"
    and "\<not> list_ex (createsId catId) ops"
    and "d1 = snd (DeleteCat None d catId)"
    and "d2 = foldl applyOp d1 ops"
    and "GetAllCats P U sem window d2 user params = Some (Inr cats)"
  shows "fst (DeleteCat None d catId) = None \<and>
         list_all2 (flaggedDeleted catId) (tbl_cats d) (tbl_cats d1) \<and>
         tbl_cat_matches d1 = tbl_cat_matches d \<and>
         (\<forall>k \<in> set cats. cat_ID k \<noteq> catId \<and>
              (\<exists>r \<in> set (tbl_cats d2). row_deleted r = False \<and> k = scanCat r)) \<and>
         (hasRow catId d \<longrightarrow> hasRow catId d2) \<and> allDeleted catId d2 \<and>
         tbl_cat_matches d2 = tbl_cat_matches d"
proof -
  have a2: "allDeleted catId d2"
    unfolding assms(4,5) by (intro foldl_allDeleted DeleteCat_allDeleted assms(3))
  have m1: "tbl_cat_matches d1 = tbl_cat_matches d"
    by (simp add: assms(4) DeleteCat_def)
  have h: "hasRow catId d \<longrightarrow> hasRow catId d2"
    unfolding assms(4,5) by (auto intro: foldl_hasRow DeleteCat_hasRow)
  have "\<forall>k \<in> set cats. cat_ID k \<noteq> catId \<and>
              (\<exists>r \<in> set (tbl_cats d2). row_deleted r = False \<and> k = scanCat r)"
  proof
    fix k assume "k \<in> set cats"
    with GetAllCats_rows [OF assms(1,2,6)] obtain r where
      r: "r \<in> set (tbl_cats d2)" "row_deleted r = False" "k = scanCat r" by blast
    from a2 r(1,2) have "row_id r \<noteq> catId" by (auto simp: allDeleted_def list_all_iff)
    with r show "cat_ID k \<noteq> catId \<and>
              (\<exists>r \<in> set (tbl_cats d2). row_deleted r = False \<and> k = scanCat r)"
      by (auto simp: scanCat_def)
  qed
  with a2 m1 h show ?thesis
    using DeleteCat_rows [of catId d] by (simp add: assms(4,5) foldl_matches DeleteCat_def)
qed

lemma exampleWindow_selective: "selective exampleWindow"
  by (simp add: selective_def exampleWindow_def)

lemma exampleCatQueryParams_wordLike: "list_all wordLike exampleCatQueryParams"
  by (simp add: exampleCatQueryParams_def wordLike_def isBlank_def)

lemma example_query_words:
  "sqlWords (getAllCatsQuery [''sex = $1''] []) =
     [''SELECT'', ''id,'', ''name,'', ''race,'', ''sex,'', ''age_in_month,'', ''image_urls,'',
      ''description,'', ''created_at,'', ''has_matched'', ''FROM'', ''cats'', ''WHERE'',
      ''deleted'', ''='', ''false'', ''AND'', ''sex'', ''='', ''$1'',
      ''ORDER'', ''BY'', ''created_at'', ''DESC'']"
  by (simp add: getAllCatsQuery_def baseQuery_def nl_def tab_def isBlank_def)

text \<open>
  An instance: \<open>cat-a\<close> is deleted and then updated to a female cat; the listing of
  the female cats returns only \<open>cat-b\<close>, and the row of \<open>cat-a\<close> is still in the
  table.
\<close>

theorem DeleteCat_soft_delete_witness:
  "selective exampleWindow \<and> list_all wordLike exampleCatQueryParams \<and>
   hasRow ''cat-a'' (foldl applyOp (snd (DeleteCat None validDb ''cat-a''))
        [OpUpdateCat None (scanCat (mkRow ''cat-a'' ''female'' []))]) \<and>
   GetAllCats exampleCatQueryParams (\<lambda>v. True) exampleSem exampleWindow
      (foldl applyOp (snd (DeleteCat None validDb ''cat-a''))
        [OpUpdateCat None (scanCat (mkRow ''cat-a'' ''female'' []))])
      exampleUser [(''sex'', [''female''])] = Some (Inr [scanCat (mkRow ''cat-b'' ''female'' ''user-2'')]) \<and>
   cat_ID (scanCat (mkRow ''cat-b'' ''female'' ''user-2'')) \<noteq> ''cat-a''"
proof -
  let ?ops = "[OpUpdateCat None (scanCat (mkRow ''cat-a'' ''female'' []))]"
  let ?d1 = "snd (DeleteCat None validDb ''cat-a'')"
  let ?d2 = "foldl applyOp ?d1 ?ops"
  let ?k = "scanCat (mkRow ''cat-b'' ''female'' ''user-2'')"
  have n: "\<not> list_ex (createsId ''cat-a'') ?ops" by simp
  have v: "validateGetAllCatsQueryParams exampleCatQueryParams (\<lambda>v. True) [(''sex'', [''female''])]
             (user_Id exampleUser) = Some ([''sex = $1''], [], [''female''])"
    by (simp add: validateGetAllCatsQueryParams_def processParam_def exampleCatQueryParams_def
        placeholder_def show_nat.simps digit_def)
  have g: "GetAllCats exampleCatQueryParams (\<lambda>v. True) exampleSem exampleWindow ?d2 exampleUser
             [(''sex'', [''female''])] = Some (Inr [?k])"
    by (simp add: GetAllCats_def v queryCats_def example_query_words atomHolds_def
        exampleSem_def exampleWindow_def
        DeleteCat_def UpdateCat_def validDb_def markDeleted_def updateRow_def mkRow_def scanCat_def)
  have h: "hasRow ''cat-a'' validDb"
    by (simp add: hasRow_def validDb_def mkRow_def)
  from DeleteCat_soft_delete [OF exampleWindow_selective exampleCatQueryParams_wordLike n refl refl g] h
  have "cat_ID ?k \<noteq> ''cat-a''" and "hasRow ''cat-a'' ?d2" by simp_all
  with exampleWindow_selective exampleCatQueryParams_wordLike g show ?thesis by blast
qed

end
